theory Spec2Isabelle
  imports Main "HOL-Library.Word"
begin

section \<open>Values shared by the whole package\<close>

text \<open>
  Go strings are byte sequences: \<^typ>\<open>string\<close>. A Go \<open>error\<close> is either nil
  or a value; a function returning \<open>(T, error)\<close> is modelled as returning a pair whose
  second component is an \<^typ>\<open>'a option\<close>, \<open>None\<close> being nil.
\<close>

datatype error =
    errorString string                \<comment> \<open>errors.New(text), fmt.Errorf without an error argument\<close>
  | NumError string string string     \<comment> \<open>strconv.NumError: Func, Num, message of Err\<close>
  | Errorf_s string error             \<comment> \<open>fmt.Errorf(prefix + "%s", err)\<close>

abbreviation dquote :: string where
  "dquote \<equiv> [CHR 0x22]"

abbreviation squote :: string where
  "squote \<equiv> [CHR 0x27]"

section \<open>models.go\<close>

subsection \<open>Source and Validate\<close>

text \<open>githubv4.PullRequestState is a string type with three constants.\<close>

type_synonym PullRequestState = string

definition PullRequestStateOpen :: PullRequestState where
  "PullRequestStateOpen = ''OPEN''"

definition PullRequestStateClosed :: PullRequestState where
  "PullRequestStateClosed = ''CLOSED''"

definition PullRequestStateMerged :: PullRequestState where
  "PullRequestStateMerged = ''MERGED''"

record Source =
  Repository :: string
  AccessToken :: string
  V3Endpoint :: string
  V4Endpoint :: string
  Paths :: "string list"
  IgnorePaths :: "string list"
  DisableCISkip :: bool
  DisableGitLFS :: bool
  SkipSSLVerification :: bool
  DisableForks :: bool
  IgnoreDrafts :: bool
  GitCryptKey :: string
  BaseBranch :: string
  RequiredReviewApprovals :: int
  Labels :: "string list"
  States :: "PullRequestState list"

text \<open>The loop of Validate over \<open>s.States\<close>: the switch has three empty cases and a
  default that returns.\<close>

fun Validate_states :: "PullRequestState list \<Rightarrow> error option" where
  "Validate_states [] = None"
| "Validate_states (state # rest) =
     (if state = PullRequestStateOpen then Validate_states rest
      else if state = PullRequestStateClosed then Validate_states rest
      else if state = PullRequestStateMerged then Validate_states rest
      else Some (errorString (''states value '' @ dquote @ state @ dquote
                   @ '' must be one of: OPEN, MERGED, CLOSED'')))"

text \<open>Validate has a pointer receiver: the model returns the error together with the
  Source as it is after the call.\<close>

definition Validate :: "Source \<Rightarrow> error option \<times> Source" where
  "Validate s =
     (if AccessToken s = '''' then (Some (errorString ''access_token must be set''), s)
      else if Repository s = '''' then (Some (errorString ''repository must be set''), s)
      else if V3Endpoint s \<noteq> '''' \<and> V4Endpoint s = ''''
        then (Some (errorString ''v4_endpoint must be set together with v3_endpoint''), s)
      else if V4Endpoint s \<noteq> '''' \<and> V3Endpoint s = ''''
        then (Some (errorString ''v3_endpoint must be set together with v4_endpoint''), s)
      else (Validate_states (States s), s))"

subsection \<open>Pull requests, commits, labels, files\<close>

text \<open>time.Time is opaque to this package: an instant. githubv4.DateTime embeds it.\<close>

datatype Time = UnixNano int

record DateTime =
  Time :: Time

text \<open>The anonymous struct \<open>Repository struct { URL string }\<close> of PullRequestObject.\<close>

record PullRequestObject_Repository =
  URL :: string

record PullRequestObject =
  ID :: string
  Number :: int
  Title :: string
  URL :: string
  BaseRefName :: string
  HeadRefName :: string
  Repository :: PullRequestObject_Repository
  IsCrossRepository :: bool
  IsDraft :: bool
  State :: PullRequestState
  UpdatedAt :: DateTime

text \<open>\<open>Author struct { User struct { Login string }; Email string }\<close> of CommitObject.\<close>

record CommitObject_Author_User =
  Login :: string

record CommitObject_Author =
  User :: CommitObject_Author_User
  Email :: string

record CommitObject =
  ID :: string
  OID :: string
  CommittedDate :: DateTime
  Message :: string
  Author :: CommitObject_Author

record ChangedFileObject =
  Path :: string

record LabelObject =
  Name :: string

text \<open>PullRequest embeds PullRequestObject; the embedded struct is the field of that name.
  A nil slice and an empty slice are both the empty list.\<close>

record PullRequest =
  PullRequestObject :: PullRequestObject
  Tip :: CommitObject
  ApprovedReviewCount :: int
  Labels :: "LabelObject list"

subsection \<open>Version\<close>

record Version =
  PR :: string
  Commit :: string
  UpdatedTime :: Time
  ApprovedReviewCount :: string
  State :: PullRequestState

text \<open>strconv.Itoa: the decimal digits of the absolute value, most significant first,
  after a minus sign for a negative number.\<close>

definition digit_char :: "nat \<Rightarrow> char" where
  "digit_char d = ''0123456789'' ! d"

function decimal :: "nat \<Rightarrow> string" where
  "decimal n = (if n < 10 then [digit_char n] else decimal (n div 10) @ [digit_char (n mod 10)])"
  by pat_completeness auto
termination
  by (relation "measure (\<lambda>n. n)") auto

declare decimal.simps [simp del]

definition Itoa :: "int \<Rightarrow> string" where
  "Itoa i = (if i < 0 then CHR ''-'' # decimal (nat (- i)) else decimal (nat i))"

text \<open>NewVersion takes a pointer to a PullRequest; the model takes the PullRequest it
  points to.\<close>

definition NewVersion :: "PullRequest \<Rightarrow> Version" where
  "NewVersion p =
     \<lparr>PR = Itoa (Number (PullRequestObject p)),
      Commit = OID (Tip p),
      UpdatedTime = Time (UpdatedAt (PullRequestObject p)),
      ApprovedReviewCount = Itoa (PullRequest.ApprovedReviewCount p),
      State = PullRequestObject.State (PullRequestObject p)\<rparr>"

section \<open>The client\<close>

subsection \<open>parseRepository\<close>

text \<open>strings.Split(s, sep) for a one-byte separator: cut at every occurrence of the
  separator; a string without the separator is returned whole, as the only part.\<close>

function Split :: "string \<Rightarrow> char \<Rightarrow> string list" where
  "Split s sep =
     (if sep \<in> set s
      then takeWhile (\<lambda>c. c \<noteq> sep) s # Split (tl (dropWhile (\<lambda>c. c \<noteq> sep) s)) sep
      else [s])"
  by pat_completeness auto
termination
proof (relation "measure (\<lambda>(s, sep). length s)")
  show "wf (measure (\<lambda>(s, sep). length s))" by simp
next
  fix s :: string and sep :: char
  assume "sep \<in> set s"
  then have "dropWhile (\<lambda>c. c \<noteq> sep) s \<noteq> []" by simp
  then have "length (tl (dropWhile (\<lambda>c. c \<noteq> sep) s)) < length (dropWhile (\<lambda>c. c \<noteq> sep) s)"
    by (cases "dropWhile (\<lambda>c. c \<noteq> sep) s") simp_all
  also have "\<dots> \<le> length s" by (rule length_dropWhile_le)
  finally show "((tl (dropWhile (\<lambda>c. c \<noteq> sep) s), sep), (s, sep)) \<in> measure (\<lambda>(s, sep). length s)"
    by simp
qed

declare Split.simps [simp del]

definition parseRepository :: "string \<Rightarrow> string \<times> string \<times> error option" where
  "parseRepository s =
     (let parts = Split s (CHR ''/'') in
      if length parts \<noteq> 2 then ('''', '''', Some (errorString ''malformed repository''))
      else (parts ! 0, parts ! 1, None))"

subsection \<open>NewGithubClient\<close>

text \<open>The client holds the handles of the two remote protocols. The constructors of the
  handles belong to the libraries (oauth2, net/url, go-github, githubv4): they are
  parameters of the model. \<open>url_Parse\<close> stands for url.Parse followed by
  \<open>endpoint.String()\<close>.\<close>

record ('v3, 'v4) GithubClient =
  V3 :: 'v3
  V4 :: 'v4
  Repository :: string
  Owner :: string

record ('c, 'v3, 'v4) libraries =
  oauth2_NewClient :: "bool \<Rightarrow> string \<Rightarrow> 'c"
  url_Parse :: "string \<Rightarrow> string \<times> error option"
  github_NewEnterpriseClient :: "string \<Rightarrow> string \<Rightarrow> 'c \<Rightarrow> 'v3 \<times> error option"
  github_NewClient :: "'c \<Rightarrow> 'v3"
  githubv4_NewEnterpriseClient :: "string \<Rightarrow> 'c \<Rightarrow> 'v4"
  githubv4_NewClient :: "'c \<Rightarrow> 'v4"

text \<open>The first argument of \<open>oauth2_NewClient\<close> tells whether the context carries the
  HTTP client that skips certificate verification.\<close>

definition NewGithubClient_v3 :: "('c, 'v3, 'v4) libraries \<Rightarrow> Source \<Rightarrow> 'c \<Rightarrow> 'v3 option \<times> error option" where
  "NewGithubClient_v3 lib s client =
     (if V3Endpoint s \<noteq> ''''
      then (case url_Parse lib (V3Endpoint s) of (endpoint, err) \<Rightarrow>
              (case err of
                 Some e \<Rightarrow> (None, Some (Errorf_s ''failed to parse v3 endpoint: '' e))
               | None \<Rightarrow>
                   (case github_NewEnterpriseClient lib endpoint endpoint client of (v3, err) \<Rightarrow>
                      (if err \<noteq> None then (None, err) else (Some v3, None)))))
      else (Some (github_NewClient lib client), None))"

text \<open>After githubv4.NewEnterpriseClient the source tests \<open>err\<close> again; it is the nil
  error of url.Parse, so that return is never taken.\<close>

definition NewGithubClient_v4 :: "('c, 'v3, 'v4) libraries \<Rightarrow> Source \<Rightarrow> 'c \<Rightarrow> 'v4 option \<times> error option" where
  "NewGithubClient_v4 lib s client =
     (if V4Endpoint s \<noteq> ''''
      then (case url_Parse lib (V4Endpoint s) of (endpoint, err) \<Rightarrow>
              (case err of
                 Some e \<Rightarrow> (None, Some (Errorf_s ''failed to parse v4 endpoint: '' e))
               | None \<Rightarrow> (Some (githubv4_NewEnterpriseClient lib endpoint client), None)))
      else (Some (githubv4_NewClient lib client), None))"

definition NewGithubClient ::
  "('c, 'v3, 'v4) libraries \<Rightarrow> Source \<Rightarrow> ('v3, 'v4) GithubClient option \<times> error option" where
  "NewGithubClient lib s =
     (case parseRepository (Source.Repository s) of (owner, repository, err) \<Rightarrow>
        (if err \<noteq> None then (None, err)
         else
           (let client = oauth2_NewClient lib (SkipSSLVerification s) (AccessToken s) in
            (case NewGithubClient_v3 lib s client of
               (None, err3) \<Rightarrow> (None, err3)
             | (Some v3, err3) \<Rightarrow>
                 (case NewGithubClient_v4 lib s client of
                    (None, err4) \<Rightarrow> (None, err4)
                  | (Some v4, err4) \<Rightarrow>
                      (Some \<lparr>V3 = v3, V4 = v4, Repository = repository, Owner = owner\<rparr>,
                       None))))))"

subsection \<open>The two remote protocols\<close>

text \<open>Query variables: \<open>map[string]interface{}\<close> holding githubv4 scalars. githubv4.Int is
  a 32-bit integer: the conversion from int keeps the low 32 bits.\<close>

datatype githubv4_value =
    githubv4_String string
  | githubv4_Int "32 word"
  | githubv4_PullRequestReviewStates "string list"

type_synonym vars = "string \<rightharpoonup> githubv4_value"

record PageInfo =
  EndCursor :: string
  HasNextPage :: bool

text \<open>The query structs. A struct with a single field is written as that field; the
  comment gives the path in the source.\<close>

record search_PullRequest =
  PullRequestObject :: PullRequestObject
  Reviews_TotalCount :: int                  \<comment> \<open>Reviews.TotalCount\<close>
  Commits_Edges :: "CommitObject list"       \<comment> \<open>Commits.Edges[i].Node.Commit\<close>
  Labels_Edges :: "LabelObject list"         \<comment> \<open>Labels.Edges[i].Node.LabelObject\<close>

record search_query =
  Search_Nodes :: "search_PullRequest list"  \<comment> \<open>Search.Nodes[i].PullRequest\<close>
  Search_PageInfo :: PageInfo                \<comment> \<open>Search.PageInfo\<close>

record filequery =
  Files_Edges :: "ChangedFileObject list"    \<comment> \<open>Repository.PullRequest.Files.Edges[i].Node\<close>
  Files_PageInfo :: PageInfo                 \<comment> \<open>Repository.PullRequest.Files.PageInfo\<close>

record pull_query =
  PullRequestObject :: PullRequestObject     \<comment> \<open>Repository.PullRequest.PullRequestObject\<close>
  Commits_Edges :: "CommitObject list"       \<comment> \<open>Repository.PullRequest.Commits.Edges[i].Node.Commit\<close>

record comment_Node =
  DatabaseId :: "64 word"
  Author_Login :: string                     \<comment> \<open>Author.Login\<close>

record getComments =
  Viewer_Login :: string                     \<comment> \<open>Viewer.Login\<close>
  PullRequest_Id :: string                   \<comment> \<open>Repository.PullRequest.Id\<close>
  Comments_Edges :: "comment_Node list"      \<comment> \<open>Repository.PullRequest.Comments.Edges[i].Node\<close>

text \<open>\<open>m.V4.Query(ctx, &q, vars)\<close> sends the query that the type of \<open>q\<close> describes and
  decodes the answer into \<open>q\<close>: one function for each of the four query structs. The
  remote service is a state \<open>'w\<close> that every call may read and change.\<close>

record 'w githubv4_Client =
  Query_search :: "'w \<Rightarrow> vars \<Rightarrow> 'w \<times> search_query \<times> error option"
  Query_files :: "'w \<Rightarrow> vars \<Rightarrow> 'w \<times> filequery \<times> error option"
  Query_pull :: "'w \<Rightarrow> vars \<Rightarrow> 'w \<times> pull_query \<times> error option"
  Query_comments :: "'w \<Rightarrow> vars \<Rightarrow> 'w \<times> getComments \<times> error option"

record RepoStatus =
  State :: string
  TargetURL :: string
  Description :: string
  Context :: string

text \<open>The REST calls used below: \<open>Issues.DeleteComment(ctx, owner, repo, id)\<close> and
  \<open>Repositories.CreateStatus(ctx, owner, repo, ref, status)\<close>.\<close>

record 'w github_Client =
  Issues_DeleteComment :: "'w \<Rightarrow> string \<Rightarrow> string \<Rightarrow> 64 word \<Rightarrow> 'w \<times> error option"
  Repositories_CreateStatus ::
    "'w \<Rightarrow> string \<Rightarrow> string \<Rightarrow> string \<Rightarrow> RepoStatus \<Rightarrow> 'w \<times> error option"

type_synonym 'w client = "('w github_Client, 'w githubv4_Client) GithubClient"

subsection \<open>strconv.Atoi\<close>

text \<open>strconv.Atoi for the 64-bit int: an optional sign, then the digits, read from left to
  right as ParseUint reads them. A byte that is not a digit is a syntax error. A value that
  leaves the 64 unsigned bits is a range error, reported at the digit where it happens, before
  any later byte is read. The signed range is checked last; a range error comes with the
  clamped value.\<close>

definition is_digit :: "char \<Rightarrow> bool" where
  "is_digit ch = (ch \<in> set ''0123456789'')"

definition digit_val :: "char \<Rightarrow> nat" where
  "digit_val ch = of_char ch - 48"

fun ParseUint_digits :: "nat \<Rightarrow> string \<Rightarrow> nat \<times> string option" where
  "ParseUint_digits n [] = (n, None)"
| "ParseUint_digits n (ch # s) =
     (if \<not> is_digit ch then (0, Some ''invalid syntax'')
      else if n \<ge> (2 ^ 64 - 1) div 10 + 1 then (2 ^ 64 - 1, Some ''value out of range'')
      else if n * 10 + digit_val ch > 2 ^ 64 - 1 then (2 ^ 64 - 1, Some ''value out of range'')
      else ParseUint_digits (n * 10 + digit_val ch) s)"

definition Atoi :: "string \<Rightarrow> int \<times> error option" where
  "Atoi s0 =
     (case s0 of
        [] \<Rightarrow> (0, Some (NumError ''Atoi'' s0 ''invalid syntax''))
      | c # rest \<Rightarrow>
          (let neg = (c = CHR ''-'');
               s = (if c = CHR ''+'' \<or> c = CHR ''-'' then rest else s0)
           in if s = [] then (0, Some (NumError ''Atoi'' s0 ''invalid syntax''))
              else (case ParseUint_digits 0 s of (un, err) \<Rightarrow>
                      (if err = Some ''invalid syntax''
                         then (0, Some (NumError ''Atoi'' s0 ''invalid syntax''))
                       else if \<not> neg \<and> un \<ge> 2 ^ 63
                         then (2 ^ 63 - 1, Some (NumError ''Atoi'' s0 ''value out of range''))
                       else if neg \<and> un > 2 ^ 63
                         then (- (2 ^ 63), Some (NumError ''Atoi'' s0 ''value out of range''))
                       else (if neg then - int un else int un, None)))))"

subsection \<open>SearchPullRequests\<close>

text \<open>The function, as it is written, is not accepted by the Go compiler:
  \<^item> its body declares a variable \<open>query\<close> (line 102) while \<open>query\<close> is its first parameter,
    so that the \<open>query\<close> of \<open>githubv4.String(query)\<close> (line 134) names both;
  \<^item> lines 148 to 157 read \<open>p.Node.X\<close>, and \<open>p := node.PullRequest\<close> has no field \<open>Node\<close>;
  \<^item> lines 162 and 165 read \<open>query.Repository.PullRequests.PageInfo\<close>, and the query struct
    has the one field \<open>Search\<close>.

  The model follows the text and repairs none of it. What the compiler cannot resolve is a
  parameter of the model, a field of the record \<open>undeclared\<close>: the value of
  \<open>githubv4.String(query)\<close>, from the string parameter; \<open>Node\<close>, from the value of
  \<open>node.PullRequest\<close> to a value with the four fields that are read through it; and
  \<open>Repository_PullRequests_PageInfo\<close>, from the decoded query struct to a page information.
  Every statement about the function is made for all values of these parameters.\<close>

record undeclared =
  githubv4_String_query :: "string \<Rightarrow> githubv4_value"
  Node :: "search_PullRequest \<Rightarrow> search_PullRequest"
  Repository_PullRequests_PageInfo :: "search_query \<Rightarrow> PageInfo"

definition SearchPullRequests_vars :: "undeclared \<Rightarrow> string \<Rightarrow> int \<Rightarrow> vars" where
  "SearchPullRequests_vars u query limit =
     [''searchQuery'' \<mapsto> githubv4_String_query u query,
      ''searchFirst'' \<mapsto> githubv4_Int (word_of_int limit),
      ''commitsLast'' \<mapsto> githubv4_Int 1,
      ''prReviewStates'' \<mapsto> githubv4_PullRequestReviewStates [''APPROVED''],
      ''labelsFirst'' \<mapsto> githubv4_Int 100]"

text \<open>\<open>labels := make([]LabelObject, len(p.Node.Labels.Edges))\<close> is a slice of that many
  zero values; the loop over \<open>p.Node.Labels.Edges\<close> appends every label to it.\<close>

definition node_labels :: "undeclared \<Rightarrow> search_PullRequest \<Rightarrow> LabelObject list" where
  "node_labels u p =
     foldl (\<lambda>labels l. labels @ [l])
       (replicate (length (Labels_Edges (Node u p))) \<lparr>Name = ''''\<rparr>)
       (Labels_Edges (Node u p))"

text \<open>The body of the loop over \<open>query.Search.Nodes\<close>, for the node whose PullRequest is
  \<open>p\<close>: one PullRequest for each element of \<open>p.Node.Commits.Edges\<close> is appended to the
  response.\<close>

definition append_node :: "undeclared \<Rightarrow> PullRequest list \<Rightarrow> search_PullRequest \<Rightarrow> PullRequest list" where
  "append_node u response p =
     (let labels = node_labels u p in
      foldl (\<lambda>response c.
               response @ [\<lparr>PullRequest.PullRequestObject =
                               search_PullRequest.PullRequestObject (Node u p),
                             Tip = c,
                             ApprovedReviewCount = Reviews_TotalCount (Node u p),
                             Labels = labels\<rparr>])
        response (search_PullRequest.Commits_Edges (Node u p)))"

text \<open>The \<open>for { ... }\<close> loop. It has no bound: the result \<open>None\<close> is the loop that never
  leaves.\<close>

partial_function (option) SearchPullRequests_loop ::
  "undeclared \<Rightarrow> 'w client \<Rightarrow> 'w \<Rightarrow> vars \<Rightarrow> PullRequest list
     \<Rightarrow> ('w \<times> PullRequest list \<times> error option) option" where
  "SearchPullRequests_loop u m w vars response =
     (case Query_search (V4 m) w vars of (w', query, err) \<Rightarrow>
        (if err \<noteq> None then Some (w', [], err)
         else
           (let response' = foldl (append_node u) response (Search_Nodes query) in
            if \<not> HasNextPage (Repository_PullRequests_PageInfo u query)
              then Some (w', response', None)
            else SearchPullRequests_loop u m w'
                   (vars(''prCursor'' \<mapsto>
                      githubv4_String (EndCursor (Repository_PullRequests_PageInfo u query))))
                   response')))"

definition SearchPullRequests ::
  "undeclared \<Rightarrow> 'w client \<Rightarrow> 'w \<Rightarrow> string \<Rightarrow> int
     \<Rightarrow> ('w \<times> PullRequest list \<times> error option) option" where
  "SearchPullRequests u m w query limit =
     SearchPullRequests_loop u m w (SearchPullRequests_vars u query limit) []"

subsection \<open>GetChangedFiles\<close>

definition GetChangedFiles_vars :: "'w client \<Rightarrow> int \<Rightarrow> string \<Rightarrow> vars" where
  "GetChangedFiles_vars m pr offset =
     [''repositoryOwner'' \<mapsto> githubv4_String (Owner m),
      ''repositoryName'' \<mapsto> githubv4_String (GithubClient.Repository m),
      ''prNumber'' \<mapsto> githubv4_Int (word_of_int pr),
      ''changedFilesFirst'' \<mapsto> githubv4_Int 100,
      ''changedFilesEndCursor'' \<mapsto> githubv4_String offset]"

partial_function (option) GetChangedFiles_loop ::
  "'w client \<Rightarrow> int \<Rightarrow> 'w \<Rightarrow> string \<Rightarrow> ChangedFileObject list
     \<Rightarrow> ('w \<times> ChangedFileObject list \<times> error option) option" where
  "GetChangedFiles_loop m pr w offset cfo =
     (case Query_files (V4 m) w (GetChangedFiles_vars m pr offset) of (w', filequery, err) \<Rightarrow>
        (if err \<noteq> None then Some (w', [], err)
         else
           (let cfo' = foldl (\<lambda>cfo f. cfo @ [\<lparr>Path = Path f\<rparr>]) cfo (Files_Edges filequery) in
            if \<not> HasNextPage (Files_PageInfo filequery) then Some (w', cfo', None)
            else GetChangedFiles_loop m pr w' (EndCursor (Files_PageInfo filequery)) cfo')))"

definition GetChangedFiles ::
  "'w client \<Rightarrow> 'w \<Rightarrow> string \<Rightarrow> string \<Rightarrow> ('w \<times> ChangedFileObject list \<times> error option) option" where
  "GetChangedFiles m w prNumber commitRef =
     (case Atoi prNumber of (pr, err) \<Rightarrow>
        (case err of
           Some e \<Rightarrow> Some (w, [], Some (Errorf_s ''failed to convert pull request number to int: '' e))
         | None \<Rightarrow> GetChangedFiles_loop m pr w '''' []))"

subsection \<open>GetPullRequest\<close>

definition GetPullRequest_vars :: "'w client \<Rightarrow> int \<Rightarrow> vars" where
  "GetPullRequest_vars m pr =
     [''repositoryOwner'' \<mapsto> githubv4_String (Owner m),
      ''repositoryName'' \<mapsto> githubv4_String (GithubClient.Repository m),
      ''prNumber'' \<mapsto> githubv4_Int (word_of_int pr),
      ''commitsLast'' \<mapsto> githubv4_Int 100]"

text \<open>The scan of the fetched commit edges; \<open>None\<close> is the loop that ran to its end.\<close>

fun GetPullRequest_scan :: "PullRequestObject \<Rightarrow> string \<Rightarrow> CommitObject list \<Rightarrow> PullRequest option" where
  "GetPullRequest_scan pro commitRef [] = None"
| "GetPullRequest_scan pro commitRef (c # cs) =
     (if OID c = commitRef
      then Some \<lparr>PullRequest.PullRequestObject = pro, Tip = c, ApprovedReviewCount = 0, Labels = []\<rparr>
      else GetPullRequest_scan pro commitRef cs)"

definition GetPullRequest ::
  "'w client \<Rightarrow> 'w \<Rightarrow> string \<Rightarrow> string \<Rightarrow> 'w \<times> PullRequest option \<times> error option" where
  "GetPullRequest m w prNumber commitRef =
     (case Atoi prNumber of (pr, err) \<Rightarrow>
        (case err of
           Some e \<Rightarrow> (w, None, Some (Errorf_s ''failed to convert pull request number to int: '' e))
         | None \<Rightarrow>
             (case Query_pull (V4 m) w (GetPullRequest_vars m pr) of (w', query, err) \<Rightarrow>
                (if err \<noteq> None then (w', None, err)
                 else
                   (case GetPullRequest_scan (pull_query.PullRequestObject query) commitRef
                           (pull_query.Commits_Edges query) of
                      Some p \<Rightarrow> (w', Some p, None)
                    | None \<Rightarrow>
                        (w', None,
                         Some (errorString (''commit with ref '' @ squote @ commitRef @ squote
                                 @ '' does not exist''))))))))"

subsection \<open>UpdateCommitStatus\<close>

text \<open>strings.Join: the elements with the separator between them.\<close>

fun strings_Join :: "string list \<Rightarrow> string \<Rightarrow> string" where
  "strings_Join [] sep = ''''"
| "strings_Join [e] sep = e"
| "strings_Join (e # es) sep = e @ sep @ strings_Join es sep"

text \<open>strings.ToLower: a string of ASCII bytes is mapped byte by byte; any other string goes
  through the Unicode tables, which are a parameter here.\<close>

definition ascii_lower :: "char \<Rightarrow> char" where
  "ascii_lower c =
     (let n = (of_char c :: nat) in if 65 \<le> n \<and> n \<le> 90 then char_of (n + 32) else c)"

definition ToLower :: "(string \<Rightarrow> string) \<Rightarrow> string \<Rightarrow> string" where
  "ToLower unicode_lower s =
     (if list_all (\<lambda>c. (of_char c :: nat) < 128) s then map ascii_lower s else unicode_lower s)"

text \<open>path.Clean, as the library scans the path: \<open>out\<close> is the output written so far and
  \<open>dotdot\<close> the length of the prefix that a \<open>..\<close> element must not remove.
  \<open>Clean_backtrack\<close> is the removal of the last element for a \<open>..\<close>:
  \<open>out.w--; for out.w > dotdot && out.index(out.w) != '/' { out.w-- }\<close>.\<close>

function Clean_backtrack :: "nat \<Rightarrow> string \<Rightarrow> string" where
  "Clean_backtrack dotdot out =
     (let w = length out - 1 in
      if w > dotdot \<and> out ! w \<noteq> CHR ''/'' then Clean_backtrack dotdot (take w out)
      else take w out)"
  by pat_completeness auto
termination
  by (relation "measure (\<lambda>(dotdot, out). length out)") auto

declare Clean_backtrack.simps [simp del]

definition dot_element :: "string \<Rightarrow> bool" where
  "dot_element path =
     (case path of
        c # rest \<Rightarrow> c = CHR ''.'' \<and> (case rest of [] \<Rightarrow> True | c1 # _ \<Rightarrow> c1 = CHR ''/'')
      | [] \<Rightarrow> False)"

definition dotdot_element :: "string \<Rightarrow> bool" where
  "dotdot_element path =
     (case path of
        c # c1 # rest \<Rightarrow>
          c = CHR ''.'' \<and> c1 = CHR ''.'' \<and> (case rest of [] \<Rightarrow> True | c2 # _ \<Rightarrow> c2 = CHR ''/'')
      | _ \<Rightarrow> False)"

function Clean_loop :: "bool \<Rightarrow> nat \<Rightarrow> string \<Rightarrow> string \<Rightarrow> string" where
  "Clean_loop rooted dotdot out path =
     (if path = [] then out
      else if hd path = CHR ''/'' then Clean_loop rooted dotdot out (tl path)
      else if dot_element path then Clean_loop rooted dotdot out (tl path)
      else if dotdot_element path then
        (if length out > dotdot
           then Clean_loop rooted dotdot (Clean_backtrack dotdot out) (drop 2 path)
         else if \<not> rooted
           then (let out' = (if length out > 0 then out @ ''/'' else out) @ ''..''
                 in Clean_loop rooted (length out') out' (drop 2 path))
         else Clean_loop rooted dotdot out (drop 2 path))
      else
        (let out' = (if rooted \<and> length out \<noteq> 1 \<or> \<not> rooted \<and> length out \<noteq> 0
                     then out @ ''/'' else out)
         in Clean_loop rooted dotdot (out' @ takeWhile (\<lambda>c. c \<noteq> CHR ''/'') path)
              (dropWhile (\<lambda>c. c \<noteq> CHR ''/'') path)))"
  by pat_completeness auto
termination
proof (relation "measure (\<lambda>(rooted, dotdot, out, path). length path)", goal_cases)
  case 1
  show ?case by simp
next
  case (2 rooted dotdot out path)
  then show ?case by (cases path) simp_all
next
  case (3 rooted dotdot out path)
  then show ?case by (cases path) simp_all
next
  case (4 rooted dotdot out path)
  then show ?case by (cases path) simp_all
next
  case (5 rooted dotdot out path)
  then show ?case by (cases path) simp_all
next
  case (6 rooted dotdot out path)
  then show ?case by (cases path) simp_all
next
  case (7 rooted dotdot out path)
  then have "takeWhile (\<lambda>c. c \<noteq> CHR ''/'') path \<noteq> []"
    by (cases path) simp_all
  then have "length (dropWhile (\<lambda>c. c \<noteq> CHR ''/'') path) < length path"
    by (metis length_append length_greater_0_conv less_add_same_cancel2
        takeWhile_dropWhile_id)
  then show ?case by simp
qed

declare Clean_loop.simps [simp del]

definition path_Clean :: "string \<Rightarrow> string" where
  "path_Clean path =
     (if path = '''' then ''.''
      else
        (let rooted = (hd path = CHR ''/'');
             out = (if rooted then Clean_loop True 1 ''/'' (tl path)
                    else Clean_loop False 0 '''' path)
         in if out = [] then ''.'' else out))"

text \<open>path.Join: the non-empty elements joined by a slash, then cleaned; the empty string
  when every element is empty.\<close>

definition path_Join :: "string list \<Rightarrow> string" where
  "path_Join elem =
     (let buf = strings_Join (filter (\<lambda>e. e \<noteq> '''') elem) ''/''
      in if buf = '''' then '''' else path_Clean buf)"

text \<open>The status that UpdateCommitStatus hands to the REST client, after the defaults.
  \<open>Getenv\<close> is os.Getenv.\<close>

definition UpdateCommitStatus_status ::
  "(string \<Rightarrow> string) \<Rightarrow> (string \<Rightarrow> string) \<Rightarrow> string \<Rightarrow> string \<Rightarrow> string \<Rightarrow> string \<Rightarrow> string
     \<Rightarrow> RepoStatus" where
  "UpdateCommitStatus_status Getenv unicode_lower baseContext statusContext status targetURL description =
     (let baseContext = (if baseContext = '''' then ''concourse-ci'' else baseContext);
          statusContext = (if statusContext = '''' then ''status'' else statusContext);
          targetURL = (if targetURL = ''''
                       then strings_Join [Getenv ''ATC_EXTERNAL_URL'', ''builds'', Getenv ''BUILD_ID''] ''/''
                       else targetURL);
          description = (if description = '''' then ''Concourse CI build '' @ status
                         else description)
      in \<lparr>RepoStatus.State = ToLower unicode_lower status,
          TargetURL = targetURL,
          Description = description,
          Context = path_Join [baseContext, statusContext]\<rparr>)"

definition UpdateCommitStatus ::
  "(string \<Rightarrow> string) \<Rightarrow> (string \<Rightarrow> string) \<Rightarrow> 'w client \<Rightarrow> 'w
     \<Rightarrow> string \<Rightarrow> string \<Rightarrow> string \<Rightarrow> string \<Rightarrow> string \<Rightarrow> string \<Rightarrow> 'w \<times> error option" where
  "UpdateCommitStatus Getenv unicode_lower m w commitRef baseContext statusContext status targetURL description =
     Repositories_CreateStatus (V3 m) w (Owner m) (GithubClient.Repository m) commitRef
       (UpdateCommitStatus_status Getenv unicode_lower baseContext statusContext status targetURL
          description)"

subsection \<open>DeletePreviousComments\<close>

definition DeletePreviousComments_vars :: "'w client \<Rightarrow> int \<Rightarrow> vars" where
  "DeletePreviousComments_vars m pr =
     [''repositoryOwner'' \<mapsto> githubv4_String (Owner m),
      ''repositoryName'' \<mapsto> githubv4_String (GithubClient.Repository m),
      ''prNumber'' \<mapsto> githubv4_Int (word_of_int pr),
      ''commentsLast'' \<mapsto> githubv4_Int 100]"

text \<open>The loop over the fetched comment edges.\<close>

fun DeletePreviousComments_loop ::
  "'w client \<Rightarrow> string \<Rightarrow> 'w \<Rightarrow> comment_Node list \<Rightarrow> 'w \<times> error option" where
  "DeletePreviousComments_loop m viewer w [] = (w, None)"
| "DeletePreviousComments_loop m viewer w (e # es) =
     (if Author_Login e = viewer
      then (case Issues_DeleteComment (V3 m) w (Owner m) (GithubClient.Repository m) (DatabaseId e) of
              (w', err) \<Rightarrow>
                (if err \<noteq> None then (w', err) else DeletePreviousComments_loop m viewer w' es))
      else DeletePreviousComments_loop m viewer w es)"

definition DeletePreviousComments :: "'w client \<Rightarrow> 'w \<Rightarrow> string \<Rightarrow> 'w \<times> error option" where
  "DeletePreviousComments m w prNumber =
     (case Atoi prNumber of (pr, err) \<Rightarrow>
        (case err of
           Some e \<Rightarrow> (w, Some (Errorf_s ''failed to convert pull request number to int: '' e))
         | None \<Rightarrow>
             (case Query_comments (V4 m) w (DeletePreviousComments_vars m pr) of
                (w', getComments, err) \<Rightarrow>
                  (if err \<noteq> None then (w', err)
                   else DeletePreviousComments_loop m (Viewer_Login getComments) w'
                          (Comments_Edges getComments)))))"

section \<open>Error texts\<close>

text \<open>\<open>err.Error()\<close>. strconv.Quote, which a NumError applies to the text it could not
  parse, is a parameter.\<close>

fun Error :: "(string \<Rightarrow> string) \<Rightarrow> error \<Rightarrow> string" where
  "Error Quote (errorString s) = s"
| "Error Quote (NumError func num msg) = ''strconv.'' @ func @ '': parsing '' @ Quote num @ '': '' @ msg"
| "Error Quote (Errorf_s prefix err) = prefix @ Error Quote err"

section \<open>Predicates of the specification\<close>

text \<open>The three literals a state may be, and the text of the error that names another one.\<close>

definition valid_state :: "PullRequestState \<Rightarrow> bool" where
  "valid_state st = (st = ''OPEN'' \<or> st = ''CLOSED'' \<or> st = ''MERGED'')"

definition states_error :: "PullRequestState \<Rightarrow> error" where
  "states_error st =
     errorString (''states value '' @ dquote @ st @ dquote @ '' must be one of: OPEN, MERGED, CLOSED'')"

text \<open>A path element that path.Clean keeps as it is: not empty, without a slash, and
  neither of the two dot elements.\<close>

definition simple_name :: "string \<Rightarrow> bool" where
  "simple_name x = (x \<noteq> '''' \<and> CHR ''/'' \<notin> set x \<and> x \<noteq> ''.'' \<and> x \<noteq> ''..'')"

text \<open>The identifiers of the comments whose author is the viewer, in the order fetched.\<close>

definition viewer_ids :: "getComments \<Rightarrow> 64 word list" where
  "viewer_ids gc =
     map DatabaseId (filter (\<lambda>e. Author_Login e = Viewer_Login gc) (Comments_Edges gc))"

section \<open>The GraphQL transport and remote services used as inputs\<close>

definition example_CommitObject :: "string \<Rightarrow> CommitObject" where
  "example_CommitObject oid =
     \<lparr>CommitObject.ID = ''C_'' @ oid, OID = oid, CommittedDate = \<lparr>Time = UnixNano 0\<rparr>, Message = ''m'',
      Author = \<lparr>User = \<lparr>Login = ''dev''\<rparr>, Email = ''dev@example.com''\<rparr>\<rparr>"

definition example_PullRequestObject :: "int \<Rightarrow> Time \<Rightarrow> PullRequestState \<Rightarrow> PullRequestObject" where
  "example_PullRequestObject n t st =
     \<lparr>PullRequestObject.ID = ''PR_1'', Number = n, Title = ''title'', URL = ''https://example.com/pr'',
      BaseRefName = ''master'', HeadRefName = ''feature'',
      Repository = \<lparr>PullRequestObject_Repository.URL = ''https://example.com/repo''\<rparr>,
      IsCrossRepository = False, IsDraft = False, State = st, UpdatedAt = \<lparr>Time = t\<rparr>\<rparr>"

text \<open>A GraphQL document binds the arguments of its fields to variables. The two documents
  are read off the struct tags: of the search query (lines 116, 123 and 130) and of the
  query for the changed files (lines 240 to 242). A service receives the values of the
  arguments, \<open>graphql_Query\<close>; it answers a paged field by its \<open>after\<close> argument,
  \<open>serve_pages\<close>, from the first page when the argument is absent or empty.\<close>

definition search_document :: "(string \<times> string) list" where
  "search_document =
     [(''search.query'', ''searchQuery''), (''search.first'', ''searchFirst''),
      (''commits.last'', ''commitsLast''), (''labels.first'', ''labelsFirst'')]"

definition files_document :: "(string \<times> string) list" where
  "files_document =
     [(''repository.owner'', ''repositoryOwner''), (''repository.name'', ''repositoryName''),
      (''pullRequest.number'', ''prNumber''),
      (''files.first'', ''changedFilesFirst''), (''files.after'', ''changedFilesEndCursor'')]"

definition graphql_Query ::
  "(string \<times> string) list \<Rightarrow> (vars \<Rightarrow> 'q \<times> error option) \<Rightarrow> 'w \<Rightarrow> vars \<Rightarrow> 'w \<times> 'q \<times> error option" where
  "graphql_Query document provider w vars =
     (case provider (vars \<circ>\<^sub>m map_of document) of (q, err) \<Rightarrow> (w, q, err))"

fun page_after :: "('p \<Rightarrow> PageInfo) \<Rightarrow> string \<Rightarrow> 'p list \<Rightarrow> 'p option" where
  "page_after info c [] = None"
| "page_after info c [p] = None"
| "page_after info c (p # q # ps) =
     (if EndCursor (info p) = c then Some q else page_after info c (q # ps))"

definition serve_pages ::
  "('p \<Rightarrow> PageInfo) \<Rightarrow> 'p \<Rightarrow> 'p list \<Rightarrow> githubv4_value option \<Rightarrow> 'p \<times> error option" where
  "serve_pages info zero pages after =
     (case pages of
        [] \<Rightarrow> (zero, Some (errorString ''no result''))
      | first # _ \<Rightarrow>
          (case after of
             None \<Rightarrow> (first, None)
           | Some (githubv4_String c) \<Rightarrow>
               (if c = '''' then (first, None)
                else (case page_after info c pages of
                        Some p \<Rightarrow> (p, None)
                      | None \<Rightarrow> (zero, Some (errorString ''invalid cursor''))))
           | Some _ \<Rightarrow> (zero, Some (errorString ''argument is not a String''))))"

definition zero_PageInfo :: PageInfo where
  "zero_PageInfo = \<lparr>EndCursor = '''', HasNextPage = False\<rparr>"

definition zero_search_query :: search_query where
  "zero_search_query = \<lparr>Search_Nodes = [], Search_PageInfo = zero_PageInfo\<rparr>"

definition zero_filequery :: filequery where
  "zero_filequery = \<lparr>Files_Edges = [], Files_PageInfo = zero_PageInfo\<rparr>"

definition zero_pull_query :: pull_query where
  "zero_pull_query =
     \<lparr>pull_query.PullRequestObject = example_PullRequestObject 0 (UnixNano 0) '''', Commits_Edges = []\<rparr>"

definition zero_getComments :: getComments where
  "zero_getComments = \<lparr>Viewer_Login = '''', PullRequest_Id = '''', Comments_Edges = []\<rparr>"

definition idle_V3 :: "'w github_Client" where
  "idle_V3 =
     \<lparr>Issues_DeleteComment = (\<lambda>w owner repo cid. (w, None)),
      Repositories_CreateStatus = (\<lambda>w owner repo ref status. (w, None))\<rparr>"

definition two_file_pages :: "filequery list" where
  "two_file_pages =
     [\<lparr>Files_Edges = [\<lparr>Path = ''a.go''\<rparr>, \<lparr>Path = ''b.go''\<rparr>],
       Files_PageInfo = \<lparr>EndCursor = ''c1'', HasNextPage = True\<rparr>\<rparr>,
      \<lparr>Files_Edges = [\<lparr>Path = ''c.go''\<rparr>],
       Files_PageInfo = \<lparr>EndCursor = ''c2'', HasNextPage = False\<rparr>\<rparr>]"

record remote =
  attempts :: "64 word list"
  present :: "64 word list"
  statuses :: "(string \<times> string \<times> string \<times> RepoStatus) list"

definition recording_V3 :: "(64 word \<Rightarrow> error option) \<Rightarrow> remote github_Client" where
  "recording_V3 fails =
     \<lparr>Issues_DeleteComment = (\<lambda>w owner repo cid.
         (w\<lparr>attempts := attempts w @ [cid],
            present := (if fails cid = None then removeAll cid (present w) else present w)\<rparr>,
          fails cid)),
      Repositories_CreateStatus = (\<lambda>w owner repo ref status.
         (w\<lparr>statuses := statuses w @ [(owner, repo, ref, status)]\<rparr>, None))\<rparr>"

definition fail_on :: "64 word \<Rightarrow> 64 word \<Rightarrow> error option" where
  "fail_on bad cid = (if cid = bad then Some (errorString ''delete failed'') else None)"

definition comments_V4 :: "getComments \<Rightarrow> 'w githubv4_Client" where
  "comments_V4 answer =
     \<lparr>Query_search = (\<lambda>w vars. (w, zero_search_query, None)),
      Query_files = (\<lambda>w vars. (w, zero_filequery, None)),
      Query_pull = (\<lambda>w vars. (w, zero_pull_query, None)),
      Query_comments = (\<lambda>w vars. (w, answer, None))\<rparr>"

definition three_comments :: getComments where
  "three_comments =
     \<lparr>Viewer_Login = ''bot'', PullRequest_Id = ''PR_1'',
      Comments_Edges =
        [\<lparr>DatabaseId = 11, Author_Login = ''bot''\<rparr>,
         \<lparr>DatabaseId = 12, Author_Login = ''alice''\<rparr>,
         \<lparr>DatabaseId = 13, Author_Login = ''bot''\<rparr>]\<rparr>"

definition start_remote :: remote where
  "start_remote = \<lparr>attempts = [], present = [11, 12, 13], statuses = []\<rparr>"

definition example_env :: "string \<Rightarrow> string" where
  "example_env key =
     (if key = ''ATC_EXTERNAL_URL'' then ''https://ci.example.com''
      else if key = ''BUILD_ID'' then ''42'' else '''')"

definition plain_libraries :: "(unit, unit, unit) libraries" where
  "plain_libraries =
     \<lparr>oauth2_NewClient = (\<lambda>insecure token. ()),
      url_Parse = (\<lambda>u. (u, None)),
      github_NewEnterpriseClient = (\<lambda>base upload c. ((), None)),
      github_NewClient = (\<lambda>c. ()),
      githubv4_NewEnterpriseClient = (\<lambda>u c. ()),
      githubv4_NewClient = (\<lambda>c. ())\<rparr>"

definition example_Source :: "string \<Rightarrow> string \<Rightarrow> string \<Rightarrow> string \<Rightarrow> PullRequestState list \<Rightarrow> Source" where
  "example_Source repository token v3 v4 states =
     \<lparr>Source.Repository = repository, AccessToken = token, V3Endpoint = v3, V4Endpoint = v4,
      Paths = [], IgnorePaths = [], DisableCISkip = False, DisableGitLFS = False,
      SkipSSLVerification = False, DisableForks = False, IgnoreDrafts = False,
      GitCryptKey = '''', BaseBranch = '''', RequiredReviewApprovals = 0,
      Labels = [], States = states\<rparr>"

definition commit_with_ID :: "string \<Rightarrow> string \<Rightarrow> CommitObject" where
  "commit_with_ID cid oid = (example_CommitObject oid)\<lparr>CommitObject.ID := cid\<rparr>"

definition pull_V4 :: "pull_query \<Rightarrow> 'w githubv4_Client" where
  "pull_V4 answer =
     \<lparr>Query_search = (\<lambda>w vars. (w, zero_search_query, None)),
      Query_files = (\<lambda>w vars. (w, zero_filequery, None)),
      Query_pull = (\<lambda>w vars. (w, answer, None)),
      Query_comments = (\<lambda>w vars. (w, zero_getComments, None))\<rparr>"

definition commit_window :: pull_query where
  "commit_window =
     \<lparr>pull_query.PullRequestObject = example_PullRequestObject 7 (UnixNano 0) ''OPEN'',
      Commits_Edges =
        [commit_with_ID ''C_1'' ''aaa'', commit_with_ID ''C_2'' ''bbb'',
         commit_with_ID ''C_3'' ''ccc'', commit_with_ID ''C_4'' ''bbb'']\<rparr>"

definition window_client :: "unit client" where
  "window_client =
     \<lparr>V3 = idle_V3, V4 = pull_V4 commit_window, Repository = ''name'', Owner = ''owner''\<rparr>"

text \<open>A GraphQL service serving pages of files that keeps, as its state, the values of the
  variables of every query it received.\<close>

definition traced_V4 :: "filequery list \<Rightarrow> githubv4_value option list list githubv4_Client" where
  "traced_V4 file_pages =
     \<lparr>Query_search = (\<lambda>w vars. (w, zero_search_query, None)),
      Query_files = (\<lambda>w vars.
         graphql_Query files_document
           (\<lambda>args. serve_pages Files_PageInfo zero_filequery file_pages (args ''files.after''))
           (w @ [map vars [''repositoryOwner'', ''repositoryName'', ''prNumber'',
                           ''changedFilesFirst'', ''changedFilesEndCursor'']])
           vars),
      Query_pull = (\<lambda>w vars. (w, zero_pull_query, None)),
      Query_comments = (\<lambda>w vars. (w, zero_getComments, None))\<rparr>"

definition traced_client :: "githubv4_value option list list client" where
  "traced_client =
     \<lparr>V3 = idle_V3, V4 = traced_V4 two_file_pages, Repository = ''name'', Owner = ''owner''\<rparr>"

definition status_client :: "remote client" where
  "status_client =
     \<lparr>V3 = recording_V3 (fail_on 0), V4 = comments_V4 three_comments,
      Repository = ''name'', Owner = ''owner''\<rparr>"

section \<open>Inputs and notions for SearchPullRequests\<close>

text \<open>The PullRequests that one pass of the loop body adds for a node.\<close>

definition node_PullRequests :: "undeclared \<Rightarrow> search_PullRequest \<Rightarrow> PullRequest list" where
  "node_PullRequests u p = append_node u [] p"

text \<open>The unresolved names read as what the declarations do give: \<open>query\<close> in the
  conversion as the string parameter, \<open>p.Node\<close> as \<open>p\<close>, and the page information as
  \<open>query.Search.PageInfo\<close>.\<close>

definition declared_fields :: undeclared where
  "declared_fields =
     \<lparr>githubv4_String_query = githubv4_String, Node = id,
      Repository_PullRequests_PageInfo = Search_PageInfo\<rparr>"

text \<open>The githubv4 client declares every key of the variables map in the operation it
  sends. A service that validates the operation refuses one that declares a variable which
  no argument of the document uses.\<close>

definition validating_Query ::
  "(string \<times> string) list \<Rightarrow> 'q \<Rightarrow> (vars \<Rightarrow> 'q \<times> error option) \<Rightarrow> 'w \<Rightarrow> vars
     \<Rightarrow> 'w \<times> 'q \<times> error option" where
  "validating_Query document zero provider w vars =
     (if dom vars \<subseteq> set (map snd document) then graphql_Query document provider w vars
      else (w, zero, Some (errorString ''a declared variable is not used'')))"

definition example_node :: "int \<Rightarrow> string \<Rightarrow> string list \<Rightarrow> search_PullRequest" where
  "example_node n oid labels =
     \<lparr>search_PullRequest.PullRequestObject = example_PullRequestObject n (UnixNano 0) ''OPEN'',
      Reviews_TotalCount = 1,
      Commits_Edges = [example_CommitObject oid],
      Labels_Edges = map (\<lambda>l. \<lparr>Name = l\<rparr>) labels\<rparr>"

definition search_page_1 :: search_query where
  "search_page_1 =
     \<lparr>Search_Nodes = [example_node 1 ''aaa'' [''bug'']],
      Search_PageInfo = \<lparr>EndCursor = ''c1'', HasNextPage = True\<rparr>\<rparr>"

definition search_page_2 :: search_query where
  "search_page_2 =
     \<lparr>Search_Nodes = [example_node 2 ''bbb'' []],
      Search_PageInfo = \<lparr>EndCursor = ''c2'', HasNextPage = False\<rparr>\<rparr>"

definition last_search_page :: search_query where
  "last_search_page =
     \<lparr>Search_Nodes = [example_node 2 ''bbb'' [''bug'', ''ci'']],
      Search_PageInfo = \<lparr>EndCursor = ''c1'', HasNextPage = False\<rparr>\<rparr>"

text \<open>A service that serves its search pages by the \<open>after\<close> argument of the search
  field, without and with the validation of the operation.\<close>

definition paged_client :: "search_query list \<Rightarrow> unit client" where
  "paged_client search_pages =
     \<lparr>V3 = idle_V3,
      V4 = \<lparr>Query_search = graphql_Query search_document
               (\<lambda>args. serve_pages Search_PageInfo zero_search_query search_pages (args ''search.after'')),
            Query_files = (\<lambda>w vars. (w, zero_filequery, None)),
            Query_pull = (\<lambda>w vars. (w, zero_pull_query, None)),
            Query_comments = (\<lambda>w vars. (w, zero_getComments, None))\<rparr>,
      Repository = ''name'', Owner = ''owner''\<rparr>"

definition validating_client :: "search_query list \<Rightarrow> unit client" where
  "validating_client search_pages =
     \<lparr>V3 = idle_V3,
      V4 = \<lparr>Query_search = validating_Query search_document zero_search_query
               (\<lambda>args. serve_pages Search_PageInfo zero_search_query search_pages (args ''search.after'')),
            Query_files = (\<lambda>w vars. (w, zero_filequery, None)),
            Query_pull = (\<lambda>w vars. (w, zero_pull_query, None)),
            Query_comments = (\<lambda>w vars. (w, zero_getComments, None))\<rparr>,
      Repository = ''name'', Owner = ''owner''\<rparr>"

section \<open>Proofs: the repository identifier\<close>

lemma length_Split: "length (Split s sep) = Suc (count_list s sep)"
proof (induction s sep rule: Split.induct)
  case (1 s sep)
  show ?case
  proof (cases "sep \<in> set s")
    case False
    then show ?thesis by (simp add: Split.simps [of s sep] count_list_0_iff)
  next
    case True
    let ?a = "takeWhile (\<lambda>c. c \<noteq> sep) s" and ?d = "dropWhile (\<lambda>c. c \<noteq> sep) s"
    from True have d: "?d \<noteq> []" by simp
    then have hd: "hd ?d = sep" using hd_dropWhile [of "\<lambda>c. c \<noteq> sep" s] by simp
    have "s = ?a @ ?d" by simp
    also have "\<dots> = ?a @ sep # tl ?d" using d hd by (cases ?d) simp_all
    finally have s: "s = ?a @ sep # tl ?d" .
    have a0: "count_list ?a sep = 0"
      using set_takeWhileD [of sep "\<lambda>c. c \<noteq> sep" s] by (auto simp: count_list_0_iff)
    have "count_list s sep = count_list (?a @ sep # tl ?d) sep" using s by simp
    also have "\<dots> = Suc (count_list (tl ?d) sep)" using a0 by simp
    finally have c: "count_list s sep = Suc (count_list (tl ?d) sep)" .
    from True have "length (Split s sep) = Suc (length (Split (tl ?d) sep))"
      by (simp add: Split.simps [of s sep])
    with "1.IH" [OF True] c show ?thesis by simp
  qed
qed

lemma Split_no_sep: "sep \<notin> set s \<Longrightarrow> Split s sep = [s]"
  by (simp add: Split.simps [of s sep])

lemma Split_one_sep:
  assumes "sep \<notin> set a" and "sep \<notin> set b"
  shows "Split (a @ sep # b) sep = [a, b]"
proof -
  have t: "takeWhile (\<lambda>c. c \<noteq> sep) (a @ sep # b) = a"
    using assms(1) by (induction a) auto
  have d: "dropWhile (\<lambda>c. c \<noteq> sep) (a @ sep # b) = sep # b"
    using assms(1) by (induction a) auto
  show ?thesis
    using assms(2) by (simp add: Split.simps [of "a @ sep # b" sep] t d Split_no_sep)
qed

lemma count_one_decompose:
  assumes "count_list s sep = 1"
  shows "\<exists>a b. s = a @ sep # b \<and> sep \<notin> set a \<and> sep \<notin> set b"
proof -
  from assms have "sep \<in> set s" by (metis count_list_0_iff zero_neq_one)
  then obtain a b where s: "s = a @ sep # b" and a: "sep \<notin> set a"
    by (meson split_list_first)
  from a have "count_list a sep = 0" by (simp add: count_list_0_iff)
  with assms s have "count_list b sep = 0" by simp
  then have "sep \<notin> set b" by (simp add: count_list_0_iff)
  with s a show ?thesis by blast
qed

lemma parseRepository_malformed:
  "count_list s (CHR ''/'') \<noteq> 1 \<Longrightarrow>
   parseRepository s = ('''', '''', Some (errorString ''malformed repository''))"
  by (simp add: parseRepository_def length_Split)

lemma parseRepository_parts:
  "CHR ''/'' \<notin> set a \<Longrightarrow> CHR ''/'' \<notin> set b \<Longrightarrow> parseRepository (a @ ''/'' @ b) = (a, b, None)"
  by (simp add: parseRepository_def Split_one_sep)

lemma NewGithubClient_malformed:
  "count_list (Source.Repository s) (CHR ''/'') \<noteq> 1 \<Longrightarrow>
   NewGithubClient lib s = (None, Some (errorString ''malformed repository''))"
  by (simp add: NewGithubClient_def parseRepository_malformed)

lemma NewGithubClient_parts:
  assumes "parseRepository (Source.Repository s) = (a, b, None)"
    and "NewGithubClient lib s = (Some c, err)"
  shows "Owner c = a \<and> GithubClient.Repository c = b \<and> err = None"
  using assms
  by (auto simp: NewGithubClient_def Let_def split: prod.splits option.splits if_splits)

text \<open>
  C2 (as stated, refuted). The claim says that the construction fails with the
  malformed-repository error whenever the split does not give two non-empty parts, for
  instance on \<open>owner/\<close>. On that identifier the split gives the two parts \<open>owner\<close> and
  the empty string, their number is 2, and the client is built with an empty repository name.
\<close>

theorem NewGithubClient_empty_name_accepted:
  "NewGithubClient plain_libraries (example_Source ''owner/'' ''token'' '''' '''' []) =
     (Some \<lparr>V3 = (), V4 = (), Repository = '''', Owner = ''owner''\<rparr>, None)"
  by (simp add: NewGithubClient_def NewGithubClient_v3_def NewGithubClient_v4_def
      parseRepository_parts [of "''owner''" "''''", simplified]
      plain_libraries_def example_Source_def)

text \<open>
  C2 (amended). Constructing the client from a Source splits the repository identifier on
  the slash. The construction fails with the malformed-repository error exactly when the
  identifier does not hold exactly one slash; with exactly one slash the owner is the text
  before it and the name the text after it, and either may be empty. \<open>owner/name\<close> gives
  owner \<open>owner\<close> and name \<open>name\<close>; \<open>owner\<close> and \<open>a/b/c\<close> fail.
\<close>

theorem NewGithubClient_one_slash:
  "(count_list (Source.Repository s) (CHR ''/'') \<noteq> 1 \<longrightarrow>
      parseRepository (Source.Repository s) = ('''', '''', Some (errorString ''malformed repository'')) \<and>
      NewGithubClient lib s = (None, Some (errorString ''malformed repository'')))
   \<and> (count_list (Source.Repository s) (CHR ''/'') = 1 \<longrightarrow>
        (\<exists>a b. Source.Repository s = a @ ''/'' @ b \<and> CHR ''/'' \<notin> set a \<and> CHR ''/'' \<notin> set b \<and>
           parseRepository (Source.Repository s) = (a, b, None) \<and>
           (\<forall>c err. NewGithubClient lib s = (Some c, err) \<longrightarrow>
              Owner c = a \<and> GithubClient.Repository c = b \<and> err = None)))
   \<and> parseRepository ''owner/name'' = (''owner'', ''name'', None)
   \<and> parseRepository ''owner'' = ('''', '''', Some (errorString ''malformed repository''))
   \<and> parseRepository ''a/b/c'' = ('''', '''', Some (errorString ''malformed repository''))"
proof (intro conjI impI)
  assume "count_list (Source.Repository s) (CHR ''/'') \<noteq> 1"
  then show "parseRepository (Source.Repository s) = ('''', '''', Some (errorString ''malformed repository''))"
    and "NewGithubClient lib s = (None, Some (errorString ''malformed repository''))"
    by (simp_all add: parseRepository_malformed NewGithubClient_malformed)
next
  assume "count_list (Source.Repository s) (CHR ''/'') = 1"
  from count_one_decompose [OF this]
  obtain a b where ab: "Source.Repository s = a @ CHR ''/'' # b"
      "CHR ''/'' \<notin> set a" "CHR ''/'' \<notin> set b"
    by (elim exE conjE)
  then have p: "parseRepository (Source.Repository s) = (a, b, None)"
    using parseRepository_parts [of a b] by simp
  have c: "\<forall>c err. NewGithubClient lib s = (Some c, err) \<longrightarrow>
          Owner c = a \<and> GithubClient.Repository c = b \<and> err = None"
    using NewGithubClient_parts [OF p] by blast
  from ab(1) have r: "Source.Repository s = a @ ''/'' @ b" by simp
  show "\<exists>a b. Source.Repository s = a @ ''/'' @ b \<and> CHR ''/'' \<notin> set a \<and> CHR ''/'' \<notin> set b \<and>
           parseRepository (Source.Repository s) = (a, b, None) \<and>
           (\<forall>c err. NewGithubClient lib s = (Some c, err) \<longrightarrow>
              Owner c = a \<and> GithubClient.Repository c = b \<and> err = None)"
    using r ab(2,3) p c by (intro exI [of _ a] exI [of _ b] conjI)
next
  show "parseRepository ''owner/name'' = (''owner'', ''name'', None)"
    using parseRepository_parts [of "''owner''" "''name''"] by simp
  show "parseRepository ''owner'' = ('''', '''', Some (errorString ''malformed repository''))"
    by (rule parseRepository_malformed) simp
  show "parseRepository ''a/b/c'' = ('''', '''', Some (errorString ''malformed repository''))"
    by (rule parseRepository_malformed) simp
qed

theorem NewGithubClient_one_slash_witness:
  "count_list (Source.Repository (example_Source ''a/b/c'' ''token'' '''' '''' [])) (CHR ''/'') \<noteq> 1
   \<and> NewGithubClient plain_libraries (example_Source ''a/b/c'' ''token'' '''' '''' [])
       = (None, Some (errorString ''malformed repository''))
   \<and> count_list (Source.Repository (example_Source ''owner/'' ''token'' '''' '''' [])) (CHR ''/'') = 1
   \<and> parseRepository (Source.Repository (example_Source ''owner/'' ''token'' '''' '''' []))
       = (''owner'', '''', None)"
proof -
  let ?s1 = "example_Source ''a/b/c'' ''token'' '''' '''' []"
  let ?s2 = "example_Source ''owner/'' ''token'' '''' '''' []"
  have c1: "count_list (Source.Repository ?s1) (CHR ''/'') \<noteq> 1"
    by (simp add: example_Source_def)
  have c2: "count_list (Source.Repository ?s2) (CHR ''/'') = 1"
    by (simp add: example_Source_def)
  from NewGithubClient_one_slash [of ?s1 plain_libraries] c1
  have f: "NewGithubClient plain_libraries ?s1 = (None, Some (errorString ''malformed repository''))"
    by blast
  from NewGithubClient_one_slash [of ?s2 plain_libraries] c2
  obtain a b where ab: "Source.Repository ?s2 = a @ ''/'' @ b" "CHR ''/'' \<notin> set a"
    "parseRepository (Source.Repository ?s2) = (a, b, None)"
    by blast
  from ab(1) have "''owner/'' = a @ ''/'' @ b" by (simp add: example_Source_def)
  with ab(2) have "a = ''owner'' \<and> b = ''''"
    by (auto simp: append_eq_Cons_conv Cons_eq_append_conv)
  with ab(3) c1 c2 f show ?thesis by simp
qed

section \<open>Proofs: Validate\<close>

lemma Validate_states_find:
  "Validate_states sts =
     (case find (\<lambda>st. \<not> valid_state st) sts of None \<Rightarrow> None | Some st \<Rightarrow> Some (states_error st))"
  by (induction sts)
     (simp_all add: valid_state_def states_error_def PullRequestStateOpen_def
        PullRequestStateClosed_def PullRequestStateMerged_def)

text \<open>
  C3. For every Source, Validate checks its rules in order and returns the first failure:
  the error for an empty token; else the error for an empty repository identifier; else an
  error when exactly one of the two endpoints is set; else, for the first entry of the states
  that is not OPEN, CLOSED or MERGED, the error naming that entry; and nil otherwise, so with
  both endpoints set or both empty and valid states it succeeds. The Source is unchanged.
\<close>

theorem Validate_first_failure:
  "snd (Validate s) = s
   \<and> (AccessToken s = '''' \<longrightarrow> fst (Validate s) = Some (errorString ''access_token must be set''))
   \<and> (AccessToken s \<noteq> '''' \<and> Source.Repository s = '''' \<longrightarrow>
        fst (Validate s) = Some (errorString ''repository must be set''))
   \<and> (AccessToken s \<noteq> '''' \<and> Source.Repository s \<noteq> '''' \<and> V3Endpoint s \<noteq> '''' \<and> V4Endpoint s = '''' \<longrightarrow>
        fst (Validate s) = Some (errorString ''v4_endpoint must be set together with v3_endpoint''))
   \<and> (AccessToken s \<noteq> '''' \<and> Source.Repository s \<noteq> '''' \<and> V3Endpoint s = '''' \<and> V4Endpoint s \<noteq> '''' \<longrightarrow>
        fst (Validate s) = Some (errorString ''v3_endpoint must be set together with v4_endpoint''))
   \<and> (AccessToken s \<noteq> '''' \<and> Source.Repository s \<noteq> '''' \<and> (V3Endpoint s = '''' \<longleftrightarrow> V4Endpoint s = '''') \<longrightarrow>
        fst (Validate s) =
          (case find (\<lambda>st. \<not> valid_state st) (States s) of
             None \<Rightarrow> None
           | Some st \<Rightarrow> Some (states_error st)))"
  by (auto simp: Validate_def Validate_states_find)

theorem Validate_first_failure_witness:
  "fst (Validate (example_Source ''o/r'' '''' ''v3'' '''' [''DRAFT''])) = Some (errorString ''access_token must be set'')
   \<and> fst (Validate (example_Source '''' ''t'' ''v3'' '''' [''DRAFT''])) = Some (errorString ''repository must be set'')
   \<and> fst (Validate (example_Source ''o/r'' ''t'' ''v3'' '''' [''DRAFT'']))
        = Some (errorString ''v4_endpoint must be set together with v3_endpoint'')
   \<and> fst (Validate (example_Source ''o/r'' ''t'' '''' ''v4'' [''DRAFT'']))
        = Some (errorString ''v3_endpoint must be set together with v4_endpoint'')
   \<and> fst (Validate (example_Source ''o/r'' ''t'' ''v3'' ''v4'' [''OPEN'', ''DRAFT'', ''MERGED'', ''X'']))
        = Some (states_error ''DRAFT'')
   \<and> fst (Validate (example_Source ''o/r'' ''t'' '''' '''' [''OPEN'', ''CLOSED'', ''MERGED''])) = None"
  using Validate_first_failure [of "example_Source ''o/r'' '''' ''v3'' '''' [''DRAFT'']"]
    Validate_first_failure [of "example_Source '''' ''t'' ''v3'' '''' [''DRAFT'']"]
    Validate_first_failure [of "example_Source ''o/r'' ''t'' ''v3'' '''' [''DRAFT'']"]
    Validate_first_failure [of "example_Source ''o/r'' ''t'' '''' ''v4'' [''DRAFT'']"]
    Validate_first_failure [of "example_Source ''o/r'' ''t'' ''v3'' ''v4'' [''OPEN'', ''DRAFT'', ''MERGED'', ''X'']"]
    Validate_first_failure [of "example_Source ''o/r'' ''t'' '''' '''' [''OPEN'', ''CLOSED'', ''MERGED'']"]
  by (simp add: example_Source_def valid_state_def)

section \<open>Proofs: NewVersion\<close>

lemma digit_char_props:
  assumes "d < 10"
  shows "is_digit (digit_char d) \<and> digit_val (digit_char d) = d
         \<and> digit_char d \<noteq> CHR ''-'' \<and> digit_char d \<noteq> CHR ''+''"
proof -
  from assms have "d \<in> {0, 1, 2, 3, 4, 5, 6, 7, 8, 9}" by auto
  then show ?thesis
    by (auto simp: digit_char_def is_digit_def digit_val_def)
qed

lemma ParseUint_digits_snoc:
  "ParseUint_digits a (xs @ [c]) =
     (case ParseUint_digits a xs of
        (m, Some e) \<Rightarrow> (m, Some e)
      | (m, None) \<Rightarrow> ParseUint_digits m [c])"
  by (induction xs arbitrary: a) simp_all

lemma ParseUint_digits_decimal:
  "n < 2 ^ 64 \<Longrightarrow> ParseUint_digits 0 (decimal n) = (n, None)"
proof (induction n rule: decimal.induct)
  case (1 n)
  show ?case
  proof (cases "n < 10")
    case True
    then have "is_digit (digit_char n)" "digit_val (digit_char n) = n"
      using digit_char_props [of n] by simp_all
    with True show ?thesis by (simp add: decimal.simps [of n])
  next
    case False
    have "n mod 10 < 10" by simp
    then have d: "is_digit (digit_char (n mod 10))" "digit_val (digit_char (n mod 10)) = n mod 10"
      using digit_char_props [of "n mod 10"] by simp_all
    from "1.prems" have q: "n div 10 < (2 ^ 64 - 1) div 10 + 1" by simp
    then have "n div 10 < 2 ^ 64" by simp
    with False 1 have r: "ParseUint_digits 0 (decimal (n div 10)) = (n div 10, None)" by simp
    have e: "n div 10 * 10 + n mod 10 = n" by simp
    have "decimal n = decimal (n div 10) @ [digit_char (n mod 10)]"
      using False by (simp add: decimal.simps [of n])
    then have "ParseUint_digits 0 (decimal n) = ParseUint_digits (n div 10) [digit_char (n mod 10)]"
      using r by (simp add: ParseUint_digits_snoc)
    also have "\<dots> = (n, None)"
      using d q "1.prems" by (simp add: e)
    finally show ?thesis .
  qed
qed

lemma decimal_hd: "\<exists>c cs. decimal n = c # cs \<and> c \<noteq> CHR ''-'' \<and> c \<noteq> CHR ''+''"
proof (induction n rule: decimal.induct)
  case (1 n)
  show ?case
  proof (cases "n < 10")
    case True
    then have "digit_char n \<noteq> CHR ''-''" "digit_char n \<noteq> CHR ''+''"
      using digit_char_props [of n] by simp_all
    with True show ?thesis by (simp add: decimal.simps [of n])
  next
    case False
    with 1 obtain c cs where d: "decimal (n div 10) = c # cs" "c \<noteq> CHR ''-''" "c \<noteq> CHR ''+''"
      by (elim meta_impE exE conjE)
    have "decimal n = decimal (n div 10) @ [digit_char (n mod 10)]"
      using False by (simp add: decimal.simps [of n])
    with d show ?thesis by simp
  qed
qed

lemma Atoi_Itoa:
  assumes "- (2 ^ 63) \<le> i" and "i \<le> 2 ^ 63 - 1"
  shows "Atoi (Itoa i) = (i, None)"
proof (cases "i < 0")
  case True
  obtain c cs where d: "decimal (nat (- i)) = c # cs"
    using decimal_hd [of "nat (- i)"] by (elim exE conjE)
  from assms True have b: "nat (- i) \<le> 2 ^ 63" by simp
  then have "nat (- i) < 2 ^ 64" by simp
  then have "ParseUint_digits 0 (decimal (nat (- i))) = (nat (- i), None)"
    by (rule ParseUint_digits_decimal)
  with True b d show ?thesis
    by (simp add: Atoi_def Itoa_def)
next
  case False
  obtain c cs where d: "decimal (nat i) = c # cs" "c \<noteq> CHR ''-''" "c \<noteq> CHR ''+''"
    using decimal_hd [of "nat i"] by (elim exE conjE)
  from assms False have b: "nat i < 2 ^ 63" by simp
  then have "nat i < 2 ^ 64" by simp
  then have "ParseUint_digits 0 (decimal (nat i)) = (nat i, None)"
    by (rule ParseUint_digits_decimal)
  with False b d show ?thesis
    by (simp add: Atoi_def Itoa_def)
qed

lemma Itoa_42: "Itoa 42 = ''42''"
  by (simp add: Itoa_def decimal.simps digit_char_def)

lemma Itoa_2: "Itoa 2 = ''2''"
  by (simp add: Itoa_def decimal.simps digit_char_def)

text \<open>
  C4. Version derivation has no error path: for every PullRequest, the PR field of its
  Version is the decimal text of the number, Commit is the OID of the tip, UpdatedTime is
  the update time, ApprovedReviewCount is the decimal text of the count of approving
  reviews, and State is the state. The decimal text of an int reads back, with strconv.Atoi,
  as that int. Number 42, tip OID abc123, time T, count 2 and state OPEN give
  42, abc123, T, 2 and OPEN.
\<close>

theorem NewVersion_fields:
  "PR (NewVersion p) = Itoa (Number (PullRequest.PullRequestObject p))
   \<and> Commit (NewVersion p) = OID (Tip p)
   \<and> UpdatedTime (NewVersion p) = Time (UpdatedAt (PullRequest.PullRequestObject p))
   \<and> Version.ApprovedReviewCount (NewVersion p) = Itoa (PullRequest.ApprovedReviewCount p)
   \<and> Version.State (NewVersion p) = PullRequestObject.State (PullRequest.PullRequestObject p)
   \<and> (- (2 ^ 63) \<le> Number (PullRequest.PullRequestObject p)
        \<and> Number (PullRequest.PullRequestObject p) \<le> 2 ^ 63 - 1
      \<longrightarrow> Atoi (PR (NewVersion p)) = (Number (PullRequest.PullRequestObject p), None))
   \<and> (- (2 ^ 63) \<le> PullRequest.ApprovedReviewCount p
        \<and> PullRequest.ApprovedReviewCount p \<le> 2 ^ 63 - 1
      \<longrightarrow> Atoi (Version.ApprovedReviewCount (NewVersion p)) = (PullRequest.ApprovedReviewCount p, None))
   \<and> (Number (PullRequest.PullRequestObject p) = 42 \<and> OID (Tip p) = ''abc123''
        \<and> Time (UpdatedAt (PullRequest.PullRequestObject p)) = T
        \<and> PullRequest.ApprovedReviewCount p = 2
        \<and> PullRequestObject.State (PullRequest.PullRequestObject p) = PullRequestStateOpen
      \<longrightarrow> NewVersion p =
            \<lparr>PR = ''42'', Commit = ''abc123'', UpdatedTime = T, ApprovedReviewCount = ''2'',
             State = ''OPEN''\<rparr>)"
  by (simp add: NewVersion_def Atoi_Itoa Itoa_42 Itoa_2 PullRequestStateOpen_def)

theorem NewVersion_fields_witness:
  "NewVersion \<lparr>PullRequest.PullRequestObject = example_PullRequestObject 42 (UnixNano 1572566400) ''OPEN'',
      Tip = example_CommitObject ''abc123'', ApprovedReviewCount = 2, Labels = []\<rparr>
     = \<lparr>PR = ''42'', Commit = ''abc123'', UpdatedTime = UnixNano 1572566400,
        ApprovedReviewCount = ''2'', State = ''OPEN''\<rparr>
   \<and> Atoi ''42'' = (42, None)"
proof -
  let ?p = "\<lparr>PullRequest.PullRequestObject = example_PullRequestObject 42 (UnixNano 1572566400) ''OPEN'',
      Tip = example_CommitObject ''abc123'', ApprovedReviewCount = 2, Labels = []\<rparr>"
  have n: "Number (PullRequest.PullRequestObject ?p) = 42"
    and o: "OID (Tip ?p) = ''abc123''"
    and t: "Time (UpdatedAt (PullRequest.PullRequestObject ?p)) = UnixNano 1572566400"
    and c: "PullRequest.ApprovedReviewCount ?p = 2"
    and s: "PullRequestObject.State (PullRequest.PullRequestObject ?p) = PullRequestStateOpen"
    by (simp_all add: example_PullRequestObject_def example_CommitObject_def PullRequestStateOpen_def)
  note f = NewVersion_fields [of ?p "UnixNano 1572566400"]
  note f6 = f [THEN conjunct2, THEN conjunct2, THEN conjunct2, THEN conjunct2, THEN conjunct2,
      THEN conjunct1]
  note f8 = f [THEN conjunct2, THEN conjunct2, THEN conjunct2, THEN conjunct2, THEN conjunct2,
      THEN conjunct2, THEN conjunct2]
  have v: "NewVersion ?p =
      \<lparr>PR = ''42'', Commit = ''abc123'', UpdatedTime = UnixNano 1572566400,
       ApprovedReviewCount = ''2'', State = ''OPEN''\<rparr>"
    by (rule f8 [THEN mp]) (intro conjI n o t c s)
  have r: "- (2 ^ 63) \<le> Number (PullRequest.PullRequestObject ?p)
           \<and> Number (PullRequest.PullRequestObject ?p) \<le> 2 ^ 63 - 1"
    unfolding n by simp
  have "Atoi (PR (NewVersion ?p)) = (Number (PullRequest.PullRequestObject ?p), None)"
    by (rule f6 [THEN mp]) (rule r)
  then have "Atoi ''42'' = (42, None)"
    unfolding v n by simp
  with v show ?thesis by (intro conjI)
qed

section \<open>Proofs: GetPullRequest\<close>

lemma Atoi_7: "Atoi ''7'' = (7, None)"
  by (simp add: Atoi_def is_digit_def digit_val_def)

lemma GetPullRequest_scan_found:
  assumes "\<forall>x \<in> set pre. OID x \<noteq> commitRef" and "OID c = commitRef"
  shows "GetPullRequest_scan pro commitRef (pre @ c # post) =
           Some \<lparr>PullRequest.PullRequestObject = pro, Tip = c, ApprovedReviewCount = 0, Labels = []\<rparr>"
  using assms by (induction pre) simp_all

lemma GetPullRequest_scan_missing:
  "\<forall>x \<in> set cs. OID x \<noteq> commitRef \<Longrightarrow> GetPullRequest_scan pro commitRef cs = None"
  by (induction cs) simp_all

lemma first_match_split:
  assumes "\<exists>c \<in> set cs. OID c = commitRef"
  shows "\<exists>pre c post. cs = pre @ c # post \<and> (\<forall>x \<in> set pre. OID x \<noteq> commitRef) \<and> OID c = commitRef"
proof -
  from assms obtain c where "c \<in> set cs" "OID c = commitRef" by (elim bexE)
  then have "\<exists>x \<in> set cs. OID x = commitRef" by (intro bexI)
  from split_list_first_prop [OF this]
  obtain pre c post where "cs = pre @ c # post" "OID c = commitRef" "\<forall>x \<in> set pre. \<not> OID x = commitRef"
    by (elim exE conjE)
  then show ?thesis by (intro exI conjI)
qed

text \<open>
  C5. When the fetched commit window holds a commit whose OID is the requested ref,
  GetPullRequest returns the PullRequest built from the first such commit in the order of
  the window, whatever follows it in the window (so also another commit with the same OID):
  the scan ends at that match. The value returned holds the PullRequestObject fields and
  that commit as Tip; its count of approving reviews is zero and it has no labels.
\<close>

theorem GetPullRequest_first_match:
  assumes "Atoi prNumber = (pr, None)"
    and "Query_pull (V4 m) w (GetPullRequest_vars m pr) = (w', query, None)"
    and "\<exists>c \<in> set (pull_query.Commits_Edges query). OID c = commitRef"
  shows "\<exists>pre c post.
           pull_query.Commits_Edges query = pre @ c # post
           \<and> (\<forall>x \<in> set pre. OID x \<noteq> commitRef) \<and> OID c = commitRef
           \<and> GetPullRequest m w prNumber commitRef =
               (w', Some \<lparr>PullRequest.PullRequestObject = pull_query.PullRequestObject query, Tip = c,
                          ApprovedReviewCount = 0, Labels = []\<rparr>, None)
           \<and> (\<forall>rest. GetPullRequest_scan (pull_query.PullRequestObject query) commitRef (pre @ c # rest)
                  = GetPullRequest_scan (pull_query.PullRequestObject query) commitRef (pre @ [c]))"
proof -
  from first_match_split [OF assms(3)] obtain pre c post where
    s: "pull_query.Commits_Edges query = pre @ c # post"
       "\<forall>x \<in> set pre. OID x \<noteq> commitRef" "OID c = commitRef"
    by (elim exE conjE)
  let ?p = "\<lparr>PullRequest.PullRequestObject = pull_query.PullRequestObject query, Tip = c,
              ApprovedReviewCount = 0, Labels = []\<rparr>"
  have f: "GetPullRequest_scan (pull_query.PullRequestObject query) commitRef (pre @ c # rest) = Some ?p"
    for rest
    using s(2,3) by (rule GetPullRequest_scan_found)
  have g: "GetPullRequest m w prNumber commitRef = (w', Some ?p, None)"
    using assms(1,2) f [of post] s(1) by (simp add: GetPullRequest_def)
  have h: "\<forall>rest. GetPullRequest_scan (pull_query.PullRequestObject query) commitRef (pre @ c # rest)
                  = GetPullRequest_scan (pull_query.PullRequestObject query) commitRef (pre @ [c])"
    using f by simp
  from s g h show ?thesis by (intro exI conjI)
qed

theorem GetPullRequest_first_match_witness:
  "GetPullRequest window_client () ''7'' ''bbb'' =
     ((), Some \<lparr>PullRequest.PullRequestObject = example_PullRequestObject 7 (UnixNano 0) ''OPEN'',
                Tip = commit_with_ID ''C_2'' ''bbb'', ApprovedReviewCount = 0, Labels = []\<rparr>, None)"
proof -
  have q: "Query_pull (V4 window_client) () (GetPullRequest_vars window_client 7)
             = ((), commit_window, None)"
    by (simp add: window_client_def pull_V4_def)
  have e: "\<exists>c \<in> set (pull_query.Commits_Edges commit_window). OID c = ''bbb''"
    by (simp add: commit_window_def commit_with_ID_def example_CommitObject_def)
  from GetPullRequest_first_match [OF Atoi_7 q e]
  obtain pre c post where
    s: "pull_query.Commits_Edges commit_window = pre @ c # post"
       "\<forall>x \<in> set pre. OID x \<noteq> ''bbb''" "OID c = ''bbb''"
    and g: "GetPullRequest window_client () ''7'' ''bbb'' =
               ((), Some \<lparr>PullRequest.PullRequestObject = pull_query.PullRequestObject commit_window, Tip = c,
                          ApprovedReviewCount = 0, Labels = []\<rparr>, None)"
    by (elim exE conjE)
  have w: "pull_query.Commits_Edges commit_window =
             [commit_with_ID ''C_1'' ''aaa''] @ commit_with_ID ''C_2'' ''bbb''
               # [commit_with_ID ''C_3'' ''ccc'', commit_with_ID ''C_4'' ''bbb'']"
    by (simp add: commit_window_def)
  have o: "OID (commit_with_ID cid oid) = oid" for cid oid
    by (simp add: commit_with_ID_def example_CommitObject_def)
  have "pre = [commit_with_ID ''C_1'' ''aaa''] \<and> c = commit_with_ID ''C_2'' ''bbb''"
  proof (cases pre)
    case Nil
    with s(1) w have "c = commit_with_ID ''C_1'' ''aaa''" by simp
    with s(3) o show ?thesis by simp
  next
    case (Cons x xs)
    with s(1) w have x: "x = commit_with_ID ''C_1'' ''aaa''"
      and r: "xs @ c # post = [commit_with_ID ''C_2'' ''bbb'', commit_with_ID ''C_3'' ''ccc'',
                              commit_with_ID ''C_4'' ''bbb'']"
      by simp_all
    show ?thesis
    proof (cases xs)
      case Nil
      with r x Cons show ?thesis by simp
    next
      case (Cons y ys)
      with r have "y = commit_with_ID ''C_2'' ''bbb''" by simp
      moreover from s(2) \<open>pre = x # xs\<close> Cons have "OID y \<noteq> ''bbb''" by simp
      ultimately show ?thesis using o by simp
    qed
  qed
  with g show ?thesis by (simp add: commit_window_def)
qed

text \<open>
  C6. When no commit of the fetched window has the requested ref as its OID, GetPullRequest
  returns no PullRequest, and the error whose text is
  \<open>commit with ref '<ref>' does not exist\<close>, naming the ref; this text differs from the text
  of the error that GetPullRequest makes when the number of the pull request does not parse.
\<close>

theorem GetPullRequest_ref_not_found:
  assumes "Atoi prNumber = (pr, None)"
    and "Query_pull (V4 m) w (GetPullRequest_vars m pr) = (w', query, None)"
    and "\<forall>c \<in> set (pull_query.Commits_Edges query). OID c \<noteq> commitRef"
  shows "GetPullRequest m w prNumber commitRef =
           (w', None, Some (errorString (''commit with ref '' @ squote @ commitRef @ squote @ '' does not exist'')))
         \<and> (\<forall>Quote e. Error Quote (errorString (''commit with ref '' @ squote @ commitRef @ squote @ '' does not exist''))
               \<noteq> Error Quote (Errorf_s ''failed to convert pull request number to int: '' e))"
  using assms by (simp add: GetPullRequest_def GetPullRequest_scan_missing)

theorem GetPullRequest_ref_not_found_witness:
  "GetPullRequest window_client () ''7'' ''ddd'' =
     ((), None, Some (errorString ''commit with ref 'ddd' does not exist''))"
proof -
  have q: "Query_pull (V4 window_client) () (GetPullRequest_vars window_client 7)
             = ((), commit_window, None)"
    by (simp add: window_client_def pull_V4_def)
  have e: "\<forall>c \<in> set (pull_query.Commits_Edges commit_window). OID c \<noteq> ''ddd''"
    by (simp add: commit_window_def commit_with_ID_def example_CommitObject_def)
  from GetPullRequest_ref_not_found [OF Atoi_7 q e] show ?thesis
    by simp
qed

section \<open>Proofs: SearchPullRequests\<close>

lemma prCursor_not_bound:
  "(vars(''prCursor'' \<mapsto> x)) \<circ>\<^sub>m map_of search_document = vars \<circ>\<^sub>m map_of search_document"
  by (rule ext) (simp add: map_comp_def search_document_def)

lemma foldl_snoc_map: "foldl (\<lambda>acc x. acc @ [f x]) acc xs = acc @ map f xs"
  by (induction xs arbitrary: acc) simp_all

lemma node_labels_eq:
  "node_labels u p =
     replicate (length (Labels_Edges (Node u p))) \<lparr>Name = ''''\<rparr> @ Labels_Edges (Node u p)"
  using foldl_snoc_map [of "\<lambda>l. l" "replicate (length (Labels_Edges (Node u p))) \<lparr>Name = ''''\<rparr>"
      "Labels_Edges (Node u p)"]
  by (simp add: node_labels_def)

lemma append_node_eq:
  "append_node u response p =
     response @ map (\<lambda>c. \<lparr>PullRequest.PullRequestObject = search_PullRequest.PullRequestObject (Node u p),
                           Tip = c, ApprovedReviewCount = Reviews_TotalCount (Node u p),
                           Labels = node_labels u p\<rparr>) (search_PullRequest.Commits_Edges (Node u p))"
  by (simp add: append_node_def Let_def foldl_snoc_map)

lemma append_node_node_PullRequests:
  "append_node u response p = response @ node_PullRequests u p"
  by (simp add: node_PullRequests_def append_node_eq)

lemma foldl_append_node:
  "foldl (append_node u) response nodes = response @ concat (map (node_PullRequests u) nodes)"
  by (induction nodes arbitrary: response) (simp_all add: append_node_node_PullRequests)

text \<open>One pass of the loop, by the answer of the service.\<close>

lemma SearchPullRequests_loop_error:
  assumes "Query_search (V4 m) w vars = (w1, q, Some e)"
  shows "SearchPullRequests_loop u m w vars response = Some (w1, [], Some e)"
  by (subst SearchPullRequests_loop.simps) (simp add: assms)

lemma SearchPullRequests_loop_last:
  assumes "Query_search (V4 m) w vars = (w1, q, None)"
    and "\<not> HasNextPage (Repository_PullRequests_PageInfo u q)"
  shows "SearchPullRequests_loop u m w vars response =
           Some (w1, response @ concat (map (node_PullRequests u) (Search_Nodes q)), None)"
  by (subst SearchPullRequests_loop.simps) (simp add: assms foldl_append_node)

lemma SearchPullRequests_loop_next:
  assumes "Query_search (V4 m) w vars = (w1, q, None)"
    and "HasNextPage (Repository_PullRequests_PageInfo u q)"
  shows "SearchPullRequests_loop u m w vars response =
           SearchPullRequests_loop u m w1
             (vars(''prCursor'' \<mapsto> githubv4_String (EndCursor (Repository_PullRequests_PageInfo u q))))
             (response @ concat (map (node_PullRequests u) (Search_Nodes q)))"
  by (subst SearchPullRequests_loop.simps) (simp add: assms foldl_append_node)

text \<open>A service that answers the search document sees the same arguments at every fetch:
  the variable \<open>prCursor\<close> is bound to no argument. Once an answer makes the loop go on, the
  loop never leaves.\<close>

lemma SearchPullRequests_loop_repeats:
  assumes q: "Query_search (V4 m) = graphql_Query search_document provider"
    and a: "provider (vars \<circ>\<^sub>m map_of search_document) = (page, None)"
    and n: "HasNextPage (Repository_PullRequests_PageInfo u page)"
  shows "SearchPullRequests_loop u m w vars response = None"
proof (rule ccontr)
  assume "SearchPullRequests_loop u m w vars response \<noteq> None"
  then obtain y where y: "SearchPullRequests_loop u m w vars response = Some y"
    by (cases "SearchPullRequests_loop u m w vars response") simp_all
  have "u = u \<longrightarrow> Query_search (V4 m) = graphql_Query search_document provider \<longrightarrow>
        provider (vars \<circ>\<^sub>m map_of search_document) = (page, None) \<longrightarrow> False"
  proof (rule SearchPullRequests_loop.raw_induct
      [where P = "\<lambda>u' m w vars response y. u' = u \<longrightarrow>
          Query_search (V4 m) = graphql_Query search_document provider \<longrightarrow>
          provider (vars \<circ>\<^sub>m map_of search_document) = (page, None) \<longrightarrow> False", OF _ y],
      intro impI)
    fix loop :: "undeclared \<Rightarrow> 'a client \<Rightarrow> 'a \<Rightarrow> vars \<Rightarrow> PullRequest list
                   \<Rightarrow> ('a \<times> PullRequest list \<times> error option) option"
    fix u' m w vars response y
    assume IH: "\<And>u' m w vars response y. loop u' m w vars response = Some y \<Longrightarrow> u' = u \<longrightarrow>
          Query_search (V4 m) = graphql_Query search_document provider \<longrightarrow>
          provider (vars \<circ>\<^sub>m map_of search_document) = (page, None) \<longrightarrow> False"
      and step: "(case Query_search (V4 m) w vars of
           (w', query, err) \<Rightarrow>
             if err \<noteq> None then Some (w', [], err)
             else let response' = foldl (append_node u') response (Search_Nodes query)
                  in if \<not> HasNextPage (Repository_PullRequests_PageInfo u' query)
                     then Some (w', response', None)
                     else loop u' m w'
                            (vars(''prCursor'' \<mapsto>
                               githubv4_String (EndCursor (Repository_PullRequests_PageInfo u' query))))
                            response') = Some y"
      and u: "u' = u"
      and q: "Query_search (V4 m) = graphql_Query search_document provider"
      and a: "provider (vars \<circ>\<^sub>m map_of search_document) = (page, None)"
    let ?vars' = "vars(''prCursor'' \<mapsto>
                    githubv4_String (EndCursor (Repository_PullRequests_PageInfo u page)))"
    from step u q a n
    have "loop u m w ?vars' (foldl (append_node u) response (Search_Nodes page)) = Some y"
      by (simp add: graphql_Query_def Let_def)
    from IH [OF this] q a show False
      by (simp only: prCursor_not_bound) simp
  qed
  with q a show False by simp
qed

text \<open>So against such a service the function makes one answer its whole result.\<close>

lemma SearchPullRequests_one_answer:
  assumes q: "Query_search (V4 m) = graphql_Query search_document provider"
    and a: "provider (SearchPullRequests_vars u query limit \<circ>\<^sub>m map_of search_document) = (page, err)"
  shows "SearchPullRequests u m w query limit =
           (if err \<noteq> None then Some (w, [], err)
            else if HasNextPage (Repository_PullRequests_PageInfo u page) then None
            else Some (w, concat (map (node_PullRequests u) (Search_Nodes page)), None))"
proof -
  have f: "Query_search (V4 m) w (SearchPullRequests_vars u query limit) = (w, page, err)"
    by (simp add: q graphql_Query_def a)
  show ?thesis
  proof (cases err)
    case (Some e)
    with f show ?thesis
      by (simp add: SearchPullRequests_def SearchPullRequests_loop_error)
  next
    case None
    show ?thesis
    proof (cases "HasNextPage (Repository_PullRequests_PageInfo u page)")
      case True
      from a None have "provider (SearchPullRequests_vars u query limit \<circ>\<^sub>m map_of search_document)
                          = (page, None)" by simp
      from SearchPullRequests_loop_repeats [OF q this True] None True show ?thesis
        by (simp add: SearchPullRequests_def)
    next
      case False
      from f None have "Query_search (V4 m) w (SearchPullRequests_vars u query limit) = (w, page, None)"
        by simp
      from SearchPullRequests_loop_last [OF this False, of "[]"] None False show ?thesis
        by (simp add: SearchPullRequests_def)
    qed
  qed
qed

text \<open>A service that validates the operation refuses the first fetch: the variables map
  holds \<open>prReviewStates\<close>, which no argument of the document uses.\<close>

lemma SearchPullRequests_refused:
  assumes "Query_search (V4 m) = validating_Query search_document zero provider"
  shows "SearchPullRequests u m w query limit =
           Some (w, [], Some (errorString ''a declared variable is not used''))"
proof -
  have "''prReviewStates'' \<in> dom (SearchPullRequests_vars u query limit)"
    by (simp add: SearchPullRequests_vars_def)
  moreover have "''prReviewStates'' \<notin> set (map snd search_document)"
    by (simp add: search_document_def)
  ultimately have "\<not> dom (SearchPullRequests_vars u query limit) \<subseteq> set (map snd search_document)"
    by (meson subsetD)
  then have "Query_search (V4 m) w (SearchPullRequests_vars u query limit)
               = (w, zero, Some (errorString ''a declared variable is not used''))"
    by (simp add: assms validating_Query_def)
  then show ?thesis
    by (simp add: SearchPullRequests_def SearchPullRequests_loop_error)
qed

text \<open>
  C1 (the code departs from it). The claim: SearchPullRequests follows the pages to the
  last one, every iteration passing an advanced cursor to the next fetch, and returns every
  item of every page once, in order. In the text of the function the search field of the
  query is \<open>search(query:$searchQuery,first:$searchFirst)\<close>: it has no \<open>after\<close> argument, and
  the variable \<open>prCursor\<close>, in which the loop stores the end cursor, is bound to nothing
  (GetChangedFiles does bind its cursor: \<open>after: $changedFilesEndCursor\<close>). Take a service
  with two pages, the first announcing the second, that serves them by the \<open>after\<close> argument.
  Whatever the two undeclared selectors are, the second page is never fetched: the function
  either never returns or returns what it made of the first page; with the page information
  read from \<open>query.Search.PageInfo\<close> it never returns. If the service validates the
  operation, the first fetch is refused, for the unused variable \<open>prReviewStates\<close>.
\<close>

theorem SearchPullRequests_second_page_never_fetched:
  "SearchPullRequests u (paged_client [search_page_1, search_page_2]) () ''is:pr is:open'' 10 =
     (if HasNextPage (Repository_PullRequests_PageInfo u search_page_1) then None
      else Some ((), concat (map (node_PullRequests u) (Search_Nodes search_page_1)), None))
   \<and> SearchPullRequests declared_fields (paged_client [search_page_1, search_page_2]) ()
         ''is:pr is:open'' 10 = None
   \<and> SearchPullRequests u (validating_client [search_page_1, search_page_2]) () ''is:pr is:open'' 10 =
         Some ((), [], Some (errorString ''a declared variable is not used''))"
proof -
  let ?provider = "\<lambda>args :: vars.
      serve_pages Search_PageInfo zero_search_query [search_page_1, search_page_2] (args ''search.after'')"
  have q: "Query_search (V4 (paged_client [search_page_1, search_page_2]))
             = graphql_Query search_document ?provider"
    by (simp add: paged_client_def)
  have a: "?provider (SearchPullRequests_vars u' ''is:pr is:open'' 10 \<circ>\<^sub>m map_of search_document)
             = (search_page_1, None)" for u'
    by (simp add: serve_pages_def map_comp_def search_document_def)
  have g: "SearchPullRequests u' (paged_client [search_page_1, search_page_2]) () ''is:pr is:open'' 10 =
     (if HasNextPage (Repository_PullRequests_PageInfo u' search_page_1) then None
      else Some ((), concat (map (node_PullRequests u') (Search_Nodes search_page_1)), None))" for u'
    using SearchPullRequests_one_answer [OF q a [of u'], of "()"] by simp
  have n: "HasNextPage (Repository_PullRequests_PageInfo declared_fields search_page_1)"
    by (simp add: declared_fields_def search_page_1_def)
  have d: "SearchPullRequests declared_fields (paged_client [search_page_1, search_page_2]) ()
         ''is:pr is:open'' 10 = None"
    using g [of declared_fields] n by simp
  have v: "Query_search (V4 (validating_client [search_page_1, search_page_2]))
             = validating_Query search_document zero_search_query ?provider"
    by (simp add: validating_client_def)
  have r: "SearchPullRequests u (validating_client [search_page_1, search_page_2]) () ''is:pr is:open'' 10 =
         Some ((), [], Some (errorString ''a declared variable is not used''))"
    by (rule SearchPullRequests_refused [OF v])
  from g [of u] d r show ?thesis by (intro conjI)
qed

text \<open>
  C10. Read \<open>p.Node\<close> as any value with a label connection of k edges. Every PullRequest
  that the loop body adds for the node has a Labels list of length 2k: k zero-valued labels
  (empty names), from the slice made with length k, followed by the k fetched labels,
  appended to it. These PullRequests, one for each commit edge, in the order of the nodes of
  a page, are exactly what a pass of the loop adds to the response, and what
  SearchPullRequests returns when it leaves the loop.
\<close>

theorem SearchPullRequests_Labels_doubled:
  "node_PullRequests u p =
      map (\<lambda>c. \<lparr>PullRequest.PullRequestObject = search_PullRequest.PullRequestObject (Node u p),
                 Tip = c, ApprovedReviewCount = Reviews_TotalCount (Node u p),
                 Labels = replicate (length (Labels_Edges (Node u p))) \<lparr>Name = ''''\<rparr>
                            @ Labels_Edges (Node u p)\<rparr>)
          (search_PullRequest.Commits_Edges (Node u p))
   \<and> (\<forall>pr \<in> set (node_PullRequests u p).
        length (PullRequest.Labels pr) = 2 * length (Labels_Edges (Node u p))
        \<and> take (length (Labels_Edges (Node u p))) (PullRequest.Labels pr)
            = replicate (length (Labels_Edges (Node u p))) \<lparr>Name = ''''\<rparr>
        \<and> drop (length (Labels_Edges (Node u p))) (PullRequest.Labels pr) = Labels_Edges (Node u p))
   \<and> (Query_search (V4 m) w vars = (w1, q, None)
        \<and> \<not> HasNextPage (Repository_PullRequests_PageInfo u q) \<longrightarrow>
        SearchPullRequests_loop u m w vars response =
          Some (w1, response @ concat (map (node_PullRequests u) (Search_Nodes q)), None))
   \<and> (Query_search (V4 m) w vars = (w1, q, None)
        \<and> HasNextPage (Repository_PullRequests_PageInfo u q) \<longrightarrow>
        SearchPullRequests_loop u m w vars response =
          SearchPullRequests_loop u m w1
            (vars(''prCursor'' \<mapsto> githubv4_String (EndCursor (Repository_PullRequests_PageInfo u q))))
            (response @ concat (map (node_PullRequests u) (Search_Nodes q))))
   \<and> (Query_search (V4 m) w vars = (w1, q, Some e) \<longrightarrow>
        SearchPullRequests_loop u m w vars response = Some (w1, [], Some e))
   \<and> SearchPullRequests u m w query limit =
        SearchPullRequests_loop u m w (SearchPullRequests_vars u query limit) []"
proof -
  have 1: "node_PullRequests u p =
      map (\<lambda>c. \<lparr>PullRequest.PullRequestObject = search_PullRequest.PullRequestObject (Node u p),
                 Tip = c, ApprovedReviewCount = Reviews_TotalCount (Node u p),
                 Labels = replicate (length (Labels_Edges (Node u p))) \<lparr>Name = ''''\<rparr>
                            @ Labels_Edges (Node u p)\<rparr>)
          (search_PullRequest.Commits_Edges (Node u p))"
    by (simp add: node_PullRequests_def append_node_eq node_labels_eq)
  have 2: "\<forall>pr \<in> set (node_PullRequests u p).
        length (PullRequest.Labels pr) = 2 * length (Labels_Edges (Node u p))
        \<and> take (length (Labels_Edges (Node u p))) (PullRequest.Labels pr)
            = replicate (length (Labels_Edges (Node u p))) \<lparr>Name = ''''\<rparr>
        \<and> drop (length (Labels_Edges (Node u p))) (PullRequest.Labels pr) = Labels_Edges (Node u p)"
    unfolding 1 by auto
  have 3: "Query_search (V4 m) w vars = (w1, q, None)
        \<and> \<not> HasNextPage (Repository_PullRequests_PageInfo u q) \<longrightarrow>
        SearchPullRequests_loop u m w vars response =
          Some (w1, response @ concat (map (node_PullRequests u) (Search_Nodes q)), None)"
    using SearchPullRequests_loop_last [of m w vars w1 q u response] by (intro impI) (elim conjE)
  have 4: "Query_search (V4 m) w vars = (w1, q, None)
        \<and> HasNextPage (Repository_PullRequests_PageInfo u q) \<longrightarrow>
        SearchPullRequests_loop u m w vars response =
          SearchPullRequests_loop u m w1
            (vars(''prCursor'' \<mapsto> githubv4_String (EndCursor (Repository_PullRequests_PageInfo u q))))
            (response @ concat (map (node_PullRequests u) (Search_Nodes q)))"
    using SearchPullRequests_loop_next [of m w vars w1 q u response] by (intro impI) (elim conjE)
  have 5: "Query_search (V4 m) w vars = (w1, q, Some e) \<longrightarrow>
        SearchPullRequests_loop u m w vars response = Some (w1, [], Some e)"
    using SearchPullRequests_loop_error [of m w vars w1 q e u response] by (intro impI)
  have 6: "SearchPullRequests u m w query limit =
        SearchPullRequests_loop u m w (SearchPullRequests_vars u query limit) []"
    by (simp add: SearchPullRequests_def)
  from 1 2 3 4 5 6 show ?thesis by (intro conjI)
qed

theorem SearchPullRequests_Labels_doubled_witness:
  "SearchPullRequests declared_fields (paged_client [last_search_page]) () ''is:pr'' 10 =
     Some ((), [\<lparr>PullRequest.PullRequestObject = example_PullRequestObject 2 (UnixNano 0) ''OPEN'',
                 Tip = example_CommitObject ''bbb'', ApprovedReviewCount = 1,
                 Labels = [\<lparr>Name = ''''\<rparr>, \<lparr>Name = ''''\<rparr>, \<lparr>Name = ''bug''\<rparr>, \<lparr>Name = ''ci''\<rparr>]\<rparr>], None)
   \<and> length (Labels_Edges (Node declared_fields (example_node 2 ''bbb'' [''bug'', ''ci'']))) = 2"
proof -
  let ?node = "example_node 2 ''bbb'' [''bug'', ''ci'']"
  let ?pr = "\<lparr>PullRequest.PullRequestObject = example_PullRequestObject 2 (UnixNano 0) ''OPEN'',
                 Tip = example_CommitObject ''bbb'', ApprovedReviewCount = 1,
                 Labels = [\<lparr>Name = ''''\<rparr>, \<lparr>Name = ''''\<rparr>, \<lparr>Name = ''bug''\<rparr>, \<lparr>Name = ''ci''\<rparr>]\<rparr>"
  let ?m = "paged_client [last_search_page]"
  let ?vars = "SearchPullRequests_vars declared_fields ''is:pr'' 10"
  note t = SearchPullRequests_Labels_doubled [where u = declared_fields and p = ?node and m = ?m
      and w = "()" and vars = ?vars and ?w1.0 = "()" and q = last_search_page and response = "[]"
      and query = "''is:pr''" and limit = 10]
  have k: "length (Labels_Edges (Node declared_fields ?node)) = 2"
    by (simp add: declared_fields_def example_node_def)
  have n: "node_PullRequests declared_fields ?node = [?pr]"
    unfolding t [THEN conjunct1]
    by (simp add: declared_fields_def example_node_def numeral_2_eq_2)
  have f: "Query_search (V4 ?m) () ?vars = ((), last_search_page, None)"
    by (simp add: paged_client_def graphql_Query_def serve_pages_def map_comp_def search_document_def)
  have h: "\<not> HasNextPage (Repository_PullRequests_PageInfo declared_fields last_search_page)"
    by (simp add: declared_fields_def last_search_page_def)
  have s: "Search_Nodes last_search_page = [?node]"
    by (simp add: last_search_page_def)
  have l: "SearchPullRequests_loop declared_fields ?m () ?vars [] =
             Some ((), [] @ concat (map (node_PullRequests declared_fields) (Search_Nodes last_search_page)), None)"
    by (rule t [THEN conjunct2, THEN conjunct2, THEN conjunct1, THEN mp]) (intro conjI f h)
  have r: "SearchPullRequests declared_fields ?m () ''is:pr'' 10 = Some ((), [?pr], None)"
    unfolding t [THEN conjunct2, THEN conjunct2, THEN conjunct2, THEN conjunct2, THEN conjunct2] l
    by (simp add: s n)
  from r k show ?thesis by (intro conjI)
qed

section \<open>Proofs: GetChangedFiles\<close>

text \<open>
  C9. The commitRef argument of GetChangedFiles has no influence: for every client, state of
  the remote service and pull request number, two calls that differ only in commitRef send
  the same queries, leave the service in the same state and return the same files and error
  (or both never return).
\<close>

theorem GetChangedFiles_ignores_commitRef:
  "GetChangedFiles m w prNumber r1 = GetChangedFiles m w prNumber r2"
  by (simp add: GetChangedFiles_def)

theorem GetChangedFiles_ignores_commitRef_witness:
  "GetChangedFiles traced_client [] ''7'' ''abc'' =
     Some ([[Some (githubv4_String ''owner''), Some (githubv4_String ''name''), Some (githubv4_Int 7),
             Some (githubv4_Int 100), Some (githubv4_String '''')],
            [Some (githubv4_String ''owner''), Some (githubv4_String ''name''), Some (githubv4_Int 7),
             Some (githubv4_Int 100), Some (githubv4_String ''c1'')]],
           [\<lparr>Path = ''a.go''\<rparr>, \<lparr>Path = ''b.go''\<rparr>, \<lparr>Path = ''c.go''\<rparr>], None)
   \<and> GetChangedFiles traced_client [] ''7'' ''def'' = GetChangedFiles traced_client [] ''7'' ''abc''"
proof -
  let ?t1 = "[Some (githubv4_String ''owner''), Some (githubv4_String ''name''), Some (githubv4_Int 7),
             Some (githubv4_Int 100), Some (githubv4_String '''')]"
  let ?t2 = "[Some (githubv4_String ''owner''), Some (githubv4_String ''name''), Some (githubv4_Int 7),
             Some (githubv4_Int 100), Some (githubv4_String ''c1'')]"
  have q1: "Query_files (V4 traced_client) [] (GetChangedFiles_vars traced_client 7 '''')
              = ([?t1], two_file_pages ! 0, None)"
    by (simp add: traced_client_def traced_V4_def graphql_Query_def GetChangedFiles_vars_def
        serve_pages_def two_file_pages_def map_comp_def files_document_def)
  have q2: "Query_files (V4 traced_client) [?t1] (GetChangedFiles_vars traced_client 7 ''c1'')
              = ([?t1, ?t2], two_file_pages ! 1, None)"
    by (simp add: traced_client_def traced_V4_def graphql_Query_def GetChangedFiles_vars_def
        serve_pages_def two_file_pages_def map_comp_def files_document_def)
  have p0: "two_file_pages ! 0 =
      \<lparr>Files_Edges = [\<lparr>Path = ''a.go''\<rparr>, \<lparr>Path = ''b.go''\<rparr>],
       Files_PageInfo = \<lparr>EndCursor = ''c1'', HasNextPage = True\<rparr>\<rparr>"
    and p1: "two_file_pages ! 1 =
      \<lparr>Files_Edges = [\<lparr>Path = ''c.go''\<rparr>],
       Files_PageInfo = \<lparr>EndCursor = ''c2'', HasNextPage = False\<rparr>\<rparr>"
    by (simp_all add: two_file_pages_def)
  have l2: "GetChangedFiles_loop traced_client 7 [?t1] ''c1'' [\<lparr>Path = ''a.go''\<rparr>, \<lparr>Path = ''b.go''\<rparr>]
              = Some ([?t1, ?t2], [\<lparr>Path = ''a.go''\<rparr>, \<lparr>Path = ''b.go''\<rparr>, \<lparr>Path = ''c.go''\<rparr>], None)"
    by (subst GetChangedFiles_loop.simps, simp only: q2 p1) simp
  have l1: "GetChangedFiles_loop traced_client 7 [] '''' []
              = Some ([?t1, ?t2], [\<lparr>Path = ''a.go''\<rparr>, \<lparr>Path = ''b.go''\<rparr>, \<lparr>Path = ''c.go''\<rparr>], None)"
    by (subst GetChangedFiles_loop.simps, simp only: q1 p0) (simp add: l2)
  have a: "GetChangedFiles traced_client [] ''7'' ''abc'' =
             Some ([?t1, ?t2], [\<lparr>Path = ''a.go''\<rparr>, \<lparr>Path = ''b.go''\<rparr>, \<lparr>Path = ''c.go''\<rparr>], None)"
    by (simp add: GetChangedFiles_def Atoi_7 l1)
  from a GetChangedFiles_ignores_commitRef [of traced_client "[]" "''7''" "''def''" "''abc''"]
  show ?thesis by (intro conjI)
qed

section \<open>Proofs: DeletePreviousComments\<close>

lemma DeletePreviousComments_loop_recording:
  assumes "V3 m = recording_V3 fails"
  shows "DeletePreviousComments_loop m viewer w edges =
     (let ids = map DatabaseId (filter (\<lambda>e. Author_Login e = viewer) edges);
          done = takeWhile (\<lambda>i. fails i = None) ids;
          rest = dropWhile (\<lambda>i. fails i = None) ids
      in (w\<lparr>attempts := attempts w @ done @ take 1 rest,
            present := foldl (\<lambda>p i. removeAll i p) (present w) done\<rparr>,
          (case rest of [] \<Rightarrow> None | i # _ \<Rightarrow> fails i)))"
proof (induction edges arbitrary: w)
  case Nil
  show ?case by simp
next
  case (Cons e es)
  show ?case
  proof (cases "Author_Login e = viewer")
    case False
    with Cons show ?thesis by simp
  next
    case True
    show ?thesis
    proof (cases "fails (DatabaseId e)")
      case None
      with True assms Cons show ?thesis
        by (simp add: recording_V3_def Let_def)
    next
      case (Some err)
      with True assms show ?thesis
        by (simp add: recording_V3_def Let_def)
    qed
  qed
qed

text \<open>
  C7. DeletePreviousComments, run against a REST service that records every deletion it is
  asked for, asks for the deletion of the comments whose author is the viewer and of no
  other, one after the other in the order of the fetched list; at the first deletion that
  fails it returns that error: no later deletion is asked for, and the comments deleted
  before stay deleted. Without a failure all of the viewer's comments are deleted and the
  result is nil. With three comments of which the first and the third are the viewer's, two
  deletions are asked for, and only the first when that one fails.
\<close>

theorem DeletePreviousComments_sequential:
  assumes "Atoi prNumber = (pr, None)"
    and "Query_comments (V4 m) w (DeletePreviousComments_vars m pr) = (w', gc, None)"
    and "V3 m = recording_V3 fails"
  shows "DeletePreviousComments m w prNumber =
     (w'\<lparr>attempts := attempts w' @ takeWhile (\<lambda>i. fails i = None) (viewer_ids gc)
                         @ take 1 (dropWhile (\<lambda>i. fails i = None) (viewer_ids gc)),
         present := foldl (\<lambda>p i. removeAll i p) (present w')
                      (takeWhile (\<lambda>i. fails i = None) (viewer_ids gc))\<rparr>,
      (case dropWhile (\<lambda>i. fails i = None) (viewer_ids gc) of [] \<Rightarrow> None | i # _ \<Rightarrow> fails i))"
  using assms(1,2)
  by (simp add: DeletePreviousComments_def DeletePreviousComments_loop_recording [OF assms(3)]
      viewer_ids_def Let_def)

theorem DeletePreviousComments_sequential_witness:
  "DeletePreviousComments
     \<lparr>V3 = recording_V3 (fail_on 0), V4 = comments_V4 three_comments, Repository = ''name'', Owner = ''owner''\<rparr>
     start_remote ''7''
     = (\<lparr>attempts = [11, 13], present = [12], statuses = []\<rparr>, None)
   \<and> DeletePreviousComments
     \<lparr>V3 = recording_V3 (fail_on 11), V4 = comments_V4 three_comments, Repository = ''name'', Owner = ''owner''\<rparr>
     start_remote ''7''
     = (\<lparr>attempts = [11], present = [11, 12, 13], statuses = []\<rparr>, Some (errorString ''delete failed''))
   \<and> DeletePreviousComments
     \<lparr>V3 = recording_V3 (fail_on 13), V4 = comments_V4 three_comments, Repository = ''name'', Owner = ''owner''\<rparr>
     start_remote ''7''
     = (\<lparr>attempts = [11, 13], present = [12, 13], statuses = []\<rparr>, Some (errorString ''delete failed''))"
proof -
  have q: "Query_comments (V4 \<lparr>V3 = recording_V3 f, V4 = comments_V4 three_comments,
              Repository = ''name'', Owner = ''owner''\<rparr>) start_remote
            (DeletePreviousComments_vars \<lparr>V3 = recording_V3 f, V4 = comments_V4 three_comments,
              Repository = ''name'', Owner = ''owner''\<rparr> 7)
          = (start_remote, three_comments, None)" for f
    by (simp add: comments_V4_def)
  have v: "V3 \<lparr>V3 = recording_V3 f, V4 = comments_V4 three_comments,
              Repository = ''name'', Owner = ''owner''\<rparr> = recording_V3 f" for f
    by simp
  have ids: "viewer_ids three_comments = [11, 13]"
    by (simp add: viewer_ids_def three_comments_def)
  have 1: "DeletePreviousComments
     \<lparr>V3 = recording_V3 (fail_on 0), V4 = comments_V4 three_comments, Repository = ''name'', Owner = ''owner''\<rparr>
     start_remote ''7''
     = (\<lparr>attempts = [11, 13], present = [12], statuses = []\<rparr>, None)"
    using DeletePreviousComments_sequential [OF Atoi_7 q v, of "fail_on 0"]
    by (simp add: ids start_remote_def fail_on_def)
  have 2: "DeletePreviousComments
     \<lparr>V3 = recording_V3 (fail_on 11), V4 = comments_V4 three_comments, Repository = ''name'', Owner = ''owner''\<rparr>
     start_remote ''7''
     = (\<lparr>attempts = [11], present = [11, 12, 13], statuses = []\<rparr>, Some (errorString ''delete failed''))"
    using DeletePreviousComments_sequential [OF Atoi_7 q v, of "fail_on 11"]
    by (simp add: ids start_remote_def fail_on_def)
  have 3: "DeletePreviousComments
     \<lparr>V3 = recording_V3 (fail_on 13), V4 = comments_V4 three_comments, Repository = ''name'', Owner = ''owner''\<rparr>
     start_remote ''7''
     = (\<lparr>attempts = [11, 13], present = [12, 13], statuses = []\<rparr>, Some (errorString ''delete failed''))"
    using DeletePreviousComments_sequential [OF Atoi_7 q v, of "fail_on 13"]
    by (simp add: ids start_remote_def fail_on_def)
  from 1 2 3 show ?thesis by (intro conjI)
qed

section \<open>Proofs: UpdateCommitStatus\<close>

lemma simple_not_dot: "simple_name x \<Longrightarrow> \<not> dot_element (x @ rest)"
  by (cases x; cases "tl x") (auto simp: simple_name_def dot_element_def split: list.splits)

lemma simple_not_dotdot: "simple_name x \<Longrightarrow> \<not> dotdot_element (x @ rest)"
  by (cases x; cases "tl x"; cases "tl (tl x)")
     (auto simp: simple_name_def dotdot_element_def split: list.splits)

lemma takeWhile_simple:
  assumes "CHR ''/'' \<notin> set x" and "rest = [] \<or> hd rest = CHR ''/''"
  shows "takeWhile (\<lambda>c. c \<noteq> CHR ''/'') (x @ rest) = x
         \<and> dropWhile (\<lambda>c. c \<noteq> CHR ''/'') (x @ rest) = rest"
proof -
  from assms(2) have r: "takeWhile (\<lambda>c. c \<noteq> CHR ''/'') rest = []
      \<and> dropWhile (\<lambda>c. c \<noteq> CHR ''/'') rest = rest"
    by (cases rest) simp_all
  from assms(1) have "\<forall>c \<in> set x. c \<noteq> CHR ''/''" by (induction x) auto
  then have "takeWhile (\<lambda>c. c \<noteq> CHR ''/'') (x @ rest) = x @ takeWhile (\<lambda>c. c \<noteq> CHR ''/'') rest"
    and "dropWhile (\<lambda>c. c \<noteq> CHR ''/'') (x @ rest) = dropWhile (\<lambda>c. c \<noteq> CHR ''/'') rest"
    by (induction x) simp_all
  with r show ?thesis by simp
qed

lemma Clean_loop_simple:
  assumes "simple_name x" and "rest = [] \<or> hd rest = CHR ''/''"
  shows "Clean_loop False dotdot out (x @ rest) =
           Clean_loop False dotdot ((if length out \<noteq> 0 then out @ ''/'' else out) @ x) rest"
proof -
  from assms(1) have ne: "x \<noteq> []" and hd: "hd (x @ rest) \<noteq> CHR ''/''"
    by (auto simp: simple_name_def neq_Nil_conv)
  from assms(1) have ns: "CHR ''/'' \<notin> set x" by (simp add: simple_name_def)
  show ?thesis
    using ne hd simple_not_dot [OF assms(1), of rest] simple_not_dotdot [OF assms(1), of rest]
      takeWhile_simple [OF ns assms(2)]
    by (subst Clean_loop.simps) (simp add: Let_def)
qed

lemma path_Join_simple:
  assumes "simple_name b" and "simple_name s"
  shows "path_Join [b, s] = b @ ''/'' @ s"
proof -
  from assms have ne: "b \<noteq> []" "s \<noteq> []" "hd b \<noteq> CHR ''/''"
    by (auto simp: simple_name_def neq_Nil_conv)
  have 1: "Clean_loop False 0 [] (b @ CHR ''/'' # s) = Clean_loop False 0 b (CHR ''/'' # s)"
    using Clean_loop_simple [OF assms(1), of "CHR ''/'' # s" 0 "[]"] by simp
  have 2: "Clean_loop False 0 b (CHR ''/'' # s) = Clean_loop False 0 b s"
    by (subst Clean_loop.simps) simp
  have 3: "Clean_loop False 0 b s = Clean_loop False 0 (b @ ''/'' @ s) []"
    using Clean_loop_simple [OF assms(2), of "[]" 0 b] ne by simp
  have 4: "Clean_loop False 0 (b @ ''/'' @ s) [] = b @ ''/'' @ s"
    by (subst Clean_loop.simps) simp
  from ne 1 2 3 4 show ?thesis
    by (simp add: path_Join_def path_Clean_def Let_def)
qed

lemma path_Join_default: "path_Join [''concourse-ci'', ''status''] = ''concourse-ci/status''"
  using path_Join_simple [of "''concourse-ci''" "''status''"] by (simp add: simple_name_def)

lemma ToLower_ascii:
  "list_all (\<lambda>c. (of_char c :: nat) < 128) s \<Longrightarrow> ToLower unicode_lower s = map ascii_lower s"
  by (simp add: ToLower_def)

lemma ascii_lower_SUCCESS: "map ascii_lower ''SUCCESS'' = ''success''"
  by code_simp

text \<open>
  C8. UpdateCommitStatus hands the REST client one status. Its state is the lower-cased
  input status (byte by byte for an ASCII status). Its context is the path-join of
  baseContext and statusContext after the defaults, which replace only an empty parameter:
  \<open>concourse-ci/status\<close> when both are empty, and the two joined by a slash when both are
  plain path elements. An empty description becomes \<open>Concourse CI build\<close> followed by the
  status as given; an empty targetURL becomes the value of ATC_EXTERNAL_URL, \<open>builds\<close> and
  the value of BUILD_ID joined by slashes. A parameter that is not empty is sent as given.
\<close>

theorem UpdateCommitStatus_defaults:
  "UpdateCommitStatus Getenv unicode_lower m w commitRef baseContext statusContext status targetURL description
     = Repositories_CreateStatus (V3 m) w (Owner m) (GithubClient.Repository m) commitRef
         (UpdateCommitStatus_status Getenv unicode_lower baseContext statusContext status targetURL description)
   \<and> RepoStatus.State (UpdateCommitStatus_status Getenv unicode_lower baseContext statusContext status targetURL description)
       = ToLower unicode_lower status
   \<and> (list_all (\<lambda>c. (of_char c :: nat) < 128) status \<longrightarrow>
        RepoStatus.State (UpdateCommitStatus_status Getenv unicode_lower baseContext statusContext status targetURL description)
          = map ascii_lower status)
   \<and> Context (UpdateCommitStatus_status Getenv unicode_lower baseContext statusContext status targetURL description)
       = path_Join [if baseContext = '''' then ''concourse-ci'' else baseContext,
                    if statusContext = '''' then ''status'' else statusContext]
   \<and> (baseContext = '''' \<and> statusContext = '''' \<longrightarrow>
        Context (UpdateCommitStatus_status Getenv unicode_lower baseContext statusContext status targetURL description)
          = ''concourse-ci/status'')
   \<and> (simple_name baseContext \<and> simple_name statusContext \<longrightarrow>
        Context (UpdateCommitStatus_status Getenv unicode_lower baseContext statusContext status targetURL description)
          = baseContext @ ''/'' @ statusContext)
   \<and> Description (UpdateCommitStatus_status Getenv unicode_lower baseContext statusContext status targetURL description)
       = (if description = '''' then ''Concourse CI build '' @ status else description)
   \<and> TargetURL (UpdateCommitStatus_status Getenv unicode_lower baseContext statusContext status targetURL description)
       = (if targetURL = '''' then Getenv ''ATC_EXTERNAL_URL'' @ ''/builds/'' @ Getenv ''BUILD_ID''
          else targetURL)"
proof -
  let ?st = "UpdateCommitStatus_status Getenv unicode_lower baseContext statusContext status targetURL description"
  have c: "Context ?st = path_Join [if baseContext = '''' then ''concourse-ci'' else baseContext,
                    if statusContext = '''' then ''status'' else statusContext]"
    by (simp add: UpdateCommitStatus_status_def Let_def)
  have d: "baseContext = '''' \<and> statusContext = '''' \<longrightarrow> Context ?st = ''concourse-ci/status''"
    unfolding c by (simp add: path_Join_default)
  have s: "simple_name baseContext \<and> simple_name statusContext \<longrightarrow>
             Context ?st = baseContext @ ''/'' @ statusContext"
  proof
    assume a: "simple_name baseContext \<and> simple_name statusContext"
    then have "baseContext \<noteq> ''''" "statusContext \<noteq> ''''" by (simp_all add: simple_name_def)
    with a show "Context ?st = baseContext @ ''/'' @ statusContext"
      unfolding c by (simp add: path_Join_simple)
  qed
  have l: "RepoStatus.State ?st = ToLower unicode_lower status"
    by (simp add: UpdateCommitStatus_status_def Let_def)
  have a: "list_all (\<lambda>c. (of_char c :: nat) < 128) status \<longrightarrow> RepoStatus.State ?st = map ascii_lower status"
    unfolding l by (simp add: ToLower_ascii)
  have e: "Description ?st = (if description = '''' then ''Concourse CI build '' @ status else description)"
    by (simp add: UpdateCommitStatus_status_def Let_def)
  have t: "TargetURL ?st = (if targetURL = '''' then Getenv ''ATC_EXTERNAL_URL'' @ ''/builds/'' @ Getenv ''BUILD_ID''
          else targetURL)"
    by (simp add: UpdateCommitStatus_status_def Let_def)
  have u: "UpdateCommitStatus Getenv unicode_lower m w commitRef baseContext statusContext status targetURL description
     = Repositories_CreateStatus (V3 m) w (Owner m) (GithubClient.Repository m) commitRef ?st"
    by (simp add: UpdateCommitStatus_def)
  from u l a c d s e t show ?thesis by (intro conjI)
qed

theorem UpdateCommitStatus_defaults_witness:
  "UpdateCommitStatus example_env id status_client start_remote ''abc123'' '''' '''' ''SUCCESS'' '''' ''''
     = (start_remote\<lparr>statuses := [(''owner'', ''name'', ''abc123'',
           \<lparr>RepoStatus.State = ''success'', TargetURL = ''https://ci.example.com/builds/42'',
            Description = ''Concourse CI build SUCCESS'', Context = ''concourse-ci/status''\<rparr>)]\<rparr>, None)
   \<and> Context (UpdateCommitStatus_status example_env id ''ci'' ''unit'' ''SUCCESS'' ''u'' ''d'') = ''ci/unit''"
proof -
  let ?st = "UpdateCommitStatus_status example_env id '''' '''' ''SUCCESS'' '''' ''''"
  note f = UpdateCommitStatus_defaults [of example_env id status_client start_remote "''abc123''"
      "''''" "''''" "''SUCCESS''" "''''" "''''"]
  note g = UpdateCommitStatus_defaults [of example_env id status_client start_remote "''abc123''"
      "''ci''" "''unit''" "''SUCCESS''" "''u''" "''d''"]
  have asc: "list_all (\<lambda>c. (of_char c :: nat) < 128) ''SUCCESS''" by simp
  have st: "RepoStatus.State ?st = ''success''"
    using f [THEN conjunct2, THEN conjunct2, THEN conjunct1, THEN mp, OF asc]
    by (simp only: ascii_lower_SUCCESS)
  have cx: "Context ?st = ''concourse-ci/status''"
    using f [THEN conjunct2, THEN conjunct2, THEN conjunct2, THEN conjunct2, THEN conjunct1]
    by simp
  have de: "Description ?st = ''Concourse CI build SUCCESS''"
    using f [THEN conjunct2, THEN conjunct2, THEN conjunct2, THEN conjunct2, THEN conjunct2,
        THEN conjunct2, THEN conjunct1]
    by simp
  have tu: "TargetURL ?st = ''https://ci.example.com/builds/42''"
    using f [THEN conjunct2, THEN conjunct2, THEN conjunct2, THEN conjunct2, THEN conjunct2,
        THEN conjunct2, THEN conjunct2]
    by (simp add: example_env_def)
  have eq: "?st = \<lparr>RepoStatus.State = ''success'', TargetURL = ''https://ci.example.com/builds/42'',
            Description = ''Concourse CI build SUCCESS'', Context = ''concourse-ci/status''\<rparr>"
    using st cx de tu by (cases ?st) simp
  have 1: "UpdateCommitStatus example_env id status_client start_remote ''abc123'' '''' '''' ''SUCCESS'' '''' ''''
     = (start_remote\<lparr>statuses := [(''owner'', ''name'', ''abc123'',
           \<lparr>RepoStatus.State = ''success'', TargetURL = ''https://ci.example.com/builds/42'',
            Description = ''Concourse CI build SUCCESS'', Context = ''concourse-ci/status''\<rparr>)]\<rparr>, None)"
    unfolding f [THEN conjunct1] eq
    by (simp add: status_client_def recording_V3_def start_remote_def)
  have sn: "simple_name ''ci'' \<and> simple_name ''unit''" by (simp add: simple_name_def)
  have 2: "Context (UpdateCommitStatus_status example_env id ''ci'' ''unit'' ''SUCCESS'' ''u'' ''d'') = ''ci/unit''"
    using g [THEN conjunct2, THEN conjunct2, THEN conjunct2, THEN conjunct2, THEN conjunct2,
        THEN conjunct1, THEN mp, OF sn]
    by simp
  from 1 2 show ?thesis by (intro conjI)
qed

end
